theory Spec2Isabelle
  imports Main
begin

section \<open>Role-based tool authorization: the closure built by createMCPAuth\<close>

text \<open>
  The development embeds the functions that \<open>createMCPAuth\<close> defines over its
  \<open>config\<close> object and over \<open>process.env\<close>.

  Modelling conventions.
  \<^item> A JavaScript string is a \<open>string\<close>; one \<open>char\<close> stands for one code unit, so
    \<open>substring(0, 14)\<close> is \<open>take 14\<close>.
  \<^item> The objects that callers hand in (configuration, role definitions, collections
    of tools) are plain objects: their prototype is \<open>Object.prototype\<close>, which has
    its twelve standard members and no others. An object is the list of its own
    entries in the order \<open>Object.entries\<close> enumerates them; a read \<open>obj[k]\<close> that
    finds no own entry continues in the prototype, so it can yield a value that is
    not of the declared type. The type \<open>js_value\<close> holds every value such a read
    can yield in this program.
  \<^item> Every function of the closure can read \<open>process.env\<close> and can assign to
    \<open>config\<close> and to the objects it is given, so each one is a function from the
    world before the call to the value returned, or the error thrown, and the world
    after the call.
  \<^item> Record fields carry a prefix naming their interface (\<open>rc_\<close> for RoleConfig,
    \<open>ar_\<close> for AuthResult, \<open>tf_\<close> for ToolFilter, \<open>ri_\<close> for RoleInfo, \<open>ai_\<close> for
    AgentInfo, \<open>w_\<close> for the world); the fields of the configuration keep their
    names.
\<close>

subsection \<open>Interfaces (types.ts)\<close>

datatype access_level = Full | Limited

text \<open>\<open>tools: string[] | '*'\<close>\<close>

datatype tool_set = AllTools | ToolList "string list"

record RoleConfig =
  rc_name :: string
  rc_description :: string
  rc_accessLevel :: access_level
  rc_tools :: tool_set
  rc_blockedTools :: "string list option"

subsection \<open>Values\<close>

text \<open>
  \<open>Fun n\<close> is the built-in function whose \<open>name\<close> property is \<open>n\<close>;
  \<open>ObjectPrototype\<close> is the object \<open>Object.prototype\<close> itself.
\<close>

datatype js_value =
    Undefined
  | Str string
  | Arr "string list"
  | RoleObj RoleConfig
  | Fun string
  | ObjectPrototype

text \<open>The tests \<open>if (x)\<close>, \<open>!x\<close>, \<open>x && y\<close> and \<open>x || y\<close>.\<close>

fun truthy :: "js_value \<Rightarrow> bool" where
  "truthy Undefined = False"
| "truthy (Str s) = (s \<noteq> [])"
| "truthy (Arr ts) = True"
| "truthy (RoleObj rc) = True"
| "truthy (Fun n) = True"
| "truthy ObjectPrototype = True"

fun join :: "string list \<Rightarrow> string" where
  "join [] = []"
| "join [x] = x"
| "join (x # y # rest) = x @ '','' @ join (y # rest)"

text \<open>
  The conversion to a string that a property key \<open>obj[v]\<close> and a template literal
  apply to \<open>v\<close>. A built-in function is rendered as Node.js renders it.
\<close>

fun js_toString :: "js_value \<Rightarrow> string" where
  "js_toString Undefined = ''undefined''"
| "js_toString (Str s) = s"
| "js_toString (Arr ts) = join ts"
| "js_toString (RoleObj rc) = ''[object Object]''"
| "js_toString (Fun n) = ''function '' @ n @ ''() { [native code] }''"
| "js_toString ObjectPrototype = ''[object Object]''"

datatype js_error = TypeError

subsection \<open>Plain objects with string keys\<close>

type_synonym 'v js_object = "(string \<times> 'v) list"

definition is_digit :: "char \<Rightarrow> bool" where
  "is_digit c = (48 \<le> (of_char c :: nat) \<and> (of_char c :: nat) \<le> 57)"

definition dec_value :: "string \<Rightarrow> nat" where
  "dec_value s = foldl (\<lambda>n c. 10 * n + ((of_char c :: nat) - 48)) 0 s"

text \<open>
  An array index is the canonical decimal form of an integer below \<open>2^32 - 1\<close>. Own
  keys that are array indices are enumerated first, in ascending numeric order; all
  other keys follow in the order of their creation.
\<close>

definition is_array_index :: "string \<Rightarrow> bool" where
  "is_array_index s =
     (s \<noteq> [] \<and> list_all is_digit s \<and> (s = ''0'' \<or> hd s \<noteq> CHR ''0'')
      \<and> dec_value s < 4294967295)"

definition key_precedes :: "string \<Rightarrow> string \<Rightarrow> bool" where
  "key_precedes a b =
     (if is_array_index a
      then (if is_array_index b then dec_value a < dec_value b else True)
      else \<not> is_array_index b)"

fun js_insert :: "string \<Rightarrow> 'v \<Rightarrow> 'v js_object \<Rightarrow> 'v js_object" where
  "js_insert k v [] = [(k, v)]"
| "js_insert k v ((k', v') # rest) =
     (if key_precedes k' k then (k', v') # js_insert k v rest
      else (k, v) # (k', v') # rest)"

text \<open>
  Defining the own property \<open>k\<close>, as an object spread does for each entry it copies:
  an existing key keeps its place, a new key is enumerated as said above.
\<close>

definition js_define :: "'v js_object \<Rightarrow> string \<Rightarrow> 'v \<Rightarrow> 'v js_object" where
  "js_define obj k v =
     (if k \<in> fst ` set obj
      then map (\<lambda>(k', v'). if k' = k then (k', v) else (k', v')) obj
      else js_insert k v obj)"

text \<open>
  The assignment \<open>obj[k] = v\<close>. It defines the own property \<open>k\<close>, except that for
  \<open>k = '__proto__'\<close> on an object with no own property of that name it runs the
  setter inherited from \<open>Object.prototype\<close>, which creates no own property: it
  replaces the object's prototype when \<open>v\<close> is an object and does nothing
  otherwise. \<open>js_assign\<close> gives the own entries after the assignment. A value
  that becomes a prototype in this way is taken to be a plain object too, with no
  setters and no read-only properties, so that later assignments to the object
  define own properties as before.
\<close>

definition js_assign :: "'v js_object \<Rightarrow> string \<Rightarrow> 'v \<Rightarrow> 'v js_object" where
  "js_assign obj k v =
     (if k = ''__proto__'' \<and> k \<notin> fst ` set obj then obj else js_define obj k v)"

text \<open>The entry lists that objects can have: no key twice, keys in enumeration order.\<close>

definition wf_object :: "'v js_object \<Rightarrow> bool" where
  "wf_object obj = (distinct (map fst obj) \<and> sorted_wrt key_precedes (map fst obj))"

definition startsWith :: "string \<Rightarrow> string \<Rightarrow> bool" where
  "startsWith s p = (take (length p) s = p)"

subsection \<open>Reading properties\<close>

text \<open>
  The members of \<open>Object.prototype\<close>: the constructor \<open>Object\<close>, ten methods, and
  the accessor \<open>__proto__\<close>, whose getter yields the prototype of the object it is
  read on.
\<close>

definition objectPrototypeMethods :: "string list" where
  "objectPrototypeMethods =
     [''__defineGetter__'', ''__defineSetter__'', ''hasOwnProperty'',
      ''__lookupGetter__'', ''__lookupSetter__'', ''isPrototypeOf'',
      ''propertyIsEnumerable'', ''toString'', ''valueOf'', ''toLocaleString'']"

text \<open>Reading \<open>k\<close> on an object that has no own \<open>k\<close> and whose prototype is \<open>Object.prototype\<close>.\<close>

definition inherited_get :: "string \<Rightarrow> js_value" where
  "inherited_get k =
     (if k = ''__proto__'' then ObjectPrototype
      else if k = ''constructor'' then Fun ''Object''
      else if k \<in> set objectPrototypeMethods then Fun k
      else Undefined)"

text \<open>\<open>config.apiKeyMap[k]\<close>\<close>

definition apiKeyMap_get :: "string js_object \<Rightarrow> string \<Rightarrow> js_value" where
  "apiKeyMap_get obj k =
     (case map_of obj k of Some role \<Rightarrow> Str role | None \<Rightarrow> inherited_get k)"

text \<open>\<open>roleConfig[k]\<close> for a role definition \<open>roleConfig\<close>.\<close>

definition roleConfig_get :: "RoleConfig \<Rightarrow> string \<Rightarrow> js_value" where
  "roleConfig_get rc k =
     (if k = ''name'' then Str (rc_name rc)
      else if k = ''description'' then Str (rc_description rc)
      else if k = ''accessLevel''
        then Str (case rc_accessLevel rc of Full \<Rightarrow> ''full'' | Limited \<Rightarrow> ''limited'')
      else if k = ''tools''
        then (case rc_tools rc of AllTools \<Rightarrow> Str ''*'' | ToolList ts \<Rightarrow> Arr ts)
      else if k = ''blockedTools''
        then (case rc_blockedTools rc of Some bs \<Rightarrow> Arr bs | None \<Rightarrow> Undefined)
      else inherited_get k)"

text \<open>
  The object \<open>config.roles\<close>: its own entries and, once \<open>config.roles['__proto__']\<close>
  has been assigned a role definition, that definition as its prototype (\<open>None\<close>:
  the prototype is still \<open>Object.prototype\<close>).
\<close>

record RolesObject =
  role_entries :: "RoleConfig js_object"
  role_proto :: "RoleConfig option"

text \<open>\<open>config.roles[k]\<close>\<close>

definition roles_get :: "RolesObject \<Rightarrow> string \<Rightarrow> js_value" where
  "roles_get obj k =
     (case map_of (role_entries obj) k of
        Some rc \<Rightarrow> RoleObj rc
      | None \<Rightarrow>
          (case role_proto obj of
             None \<Rightarrow> inherited_get k
           | Some p \<Rightarrow> if k = ''__proto__'' then RoleObj p else roleConfig_get p k))"

text \<open>\<open>config.roles[k] = roleConfig\<close>\<close>

definition roles_assign :: "RolesObject \<Rightarrow> string \<Rightarrow> RoleConfig \<Rightarrow> RolesObject" where
  "roles_assign obj k rc =
     (if k = ''__proto__'' \<and> k \<notin> fst ` set (role_entries obj)
      then obj\<lparr>role_proto := Some rc\<rparr>
      else obj\<lparr>role_entries := js_define (role_entries obj) k rc\<rparr>)"

text \<open>
  The properties that the program reads on a value \<open>v\<close> found under a role key:
  \<open>v.tools\<close>, \<open>v.blockedTools\<close>, \<open>v.name\<close> and \<open>v.description\<close>, for \<open>v\<close> other than
  \<open>undefined\<close>. Strings, arrays, functions and \<open>Object.prototype\<close> have none of
  them, but for the \<open>name\<close> of a function.
\<close>

fun tools_of :: "js_value \<Rightarrow> js_value" where
  "tools_of (RoleObj rc) = roleConfig_get rc ''tools''"
| "tools_of v = Undefined"

fun blockedTools_of :: "js_value \<Rightarrow> js_value" where
  "blockedTools_of (RoleObj rc) = roleConfig_get rc ''blockedTools''"
| "blockedTools_of v = Undefined"

fun name_of :: "js_value \<Rightarrow> js_value" where
  "name_of (RoleObj rc) = roleConfig_get rc ''name''"
| "name_of (Fun n) = Str n"
| "name_of v = Undefined"

fun description_of :: "js_value \<Rightarrow> js_value" where
  "description_of (RoleObj rc) = roleConfig_get rc ''description''"
| "description_of v = Undefined"

subsection \<open>Results (types.ts) and the configuration\<close>

text \<open>
  The fields have the types of the values that the code can put there, which for
  some are wider than the declared ones: \<open>allowedTools\<close> can be \<open>undefined\<close>
  (\<open>None\<close>), a role can be a value that is not a string. \<open>null\<close> is \<open>None\<close>.
\<close>

record ToolFilter =
  tf_allowedTools :: "string list option"
  tf_blockedTools :: "string list"
  tf_role :: js_value
  tf_userId :: string

record AuthResult =
  ar_authenticated :: bool
  ar_role :: "js_value option"
  ar_userId :: "string option"
  ar_error :: "string option"

record RoleInfo =
  ri_key :: string
  ri_name :: string
  ri_description :: string
  ri_accessLevel :: access_level
  ri_toolCount :: nat

record AgentInfo =
  ai_role :: js_value
  ai_name :: js_value
  ai_description :: js_value
  ai_allowedToolCount :: nat
  ai_blockedToolCount :: nat

text \<open>The merged configuration \<open>config: Required<MCPAuthConfig>\<close>.\<close>

record MCPAuthConfig =
  roles :: RolesObject
  defaultRole :: string
  apiKeyMap :: "string js_object"
  knownTools :: "string list"
  roleEnvVar :: string
  apiKeyEnvVar :: string

subsection \<open>The world\<close>

text \<open>
  \<open>process.env[name]\<close> is whatever the environment yields for \<open>name\<close>: a string
  when the variable is set, \<open>undefined\<close> when it is not, unless \<open>name\<close> is the name
  of a member of the prototype of \<open>process.env\<close>.

  \<open>filterTools\<close> returns either the object it was given or a new object, so objects
  live in a store: the list of all objects allocated so far, an object's reference
  being its position. A reference is valid when it is below the length of the
  store; the program only ever holds valid references, and the properties of
  \<open>filterTools\<close> are stated for them. The entries' values are of an arbitrary type
  \<open>'v\<close>; they are only ever passed on.
\<close>

type_synonym process_env = "string \<Rightarrow> js_value"

type_synonym 'v store = "'v js_object list"

record 'v world =
  w_config :: MCPAuthConfig
  w_env :: process_env
  w_store :: "'v store"

text \<open>
  What a call yields: the value returned or the error thrown, and the world it
  leaves. \<open>andThen f g\<close> runs \<open>f\<close> and hands its value to \<open>g\<close>; an error thrown by
  \<open>f\<close> ends the run.
\<close>

type_synonym ('v, 'a) run = "'v world \<Rightarrow> (js_error + 'a) \<times> 'v world"

definition andThen :: "('v, 'a) run \<Rightarrow> ('a \<Rightarrow> ('v, 'b) run) \<Rightarrow> ('v, 'b) run" where
  "andThen f g w = (case f w of (Inl e, w') \<Rightarrow> (Inl e, w') | (Inr x, w') \<Rightarrow> g x w')"

subsection \<open>Role resolution\<close>

text \<open>The loop of \<open>getRoleFromApiKey\<close> over \<open>Object.entries(config.apiKeyMap)\<close>.\<close>

fun firstPrefixMatch :: "string \<Rightarrow> string js_object \<Rightarrow> string option" where
  "firstPrefixMatch apiKey [] = None"
| "firstPrefixMatch apiKey ((keyPrefix, role) # rest) =
     (if startsWith apiKey keyPrefix then Some role else firstPrefixMatch apiKey rest)"

text \<open>
  \<open>getRoleFromEnv\<close> passes on what it read from \<open>process.env\<close>; only a string has
  the method \<open>substring\<close>, on any other value the call \<open>apiKey.substring(0, 14)\<close>
  throws.
\<close>

definition getRoleFromApiKey :: "js_value \<Rightarrow> ('v, js_value) run" where
  "getRoleFromApiKey apiKey w =
     (let config = w_config w
      in case apiKey of
           Str key \<Rightarrow>
             (let prefix = take 14 key
              in if truthy (apiKeyMap_get (apiKeyMap config) prefix)
                 then (Inr (apiKeyMap_get (apiKeyMap config) prefix), w)
                 else (case firstPrefixMatch key (apiKeyMap config) of
                         Some role \<Rightarrow> (Inr (Str role), w)
                       | None \<Rightarrow> (Inr (Str (defaultRole config)), w)))
         | _ \<Rightarrow> (Inl TypeError, w))"

definition getRoleFromEnv :: "('v, js_value) run" where
  "getRoleFromEnv w =
     (let config = w_config w;
          directRole = w_env w (roleEnvVar config)
      in if truthy directRole
            \<and> truthy (roles_get (roles config) (js_toString directRole))
         then (Inr directRole, w)
         else (let apiKey = w_env w (apiKeyEnvVar config)
               in if truthy apiKey then getRoleFromApiKey apiKey w
                  else (Inr (Str (defaultRole config)), w)))"

subsection \<open>Authentication\<close>

definition authenticateAgent :: "('v, AuthResult) run" where
  "authenticateAgent =
     andThen getRoleFromEnv (\<lambda>role w.
       let config = w_config w;
           apiKey = w_env w (apiKeyEnvVar config)
       in if \<not> truthy (roles_get (roles config) (js_toString role))
          then (Inr \<lparr>ar_authenticated = False, ar_role = None, ar_userId = None,
                     ar_error = Some (''Unknown role: '' @ js_toString role)\<rparr>, w)
          else if truthy apiKey
          then (case apiKey of
                  Str key \<Rightarrow>
                    (Inr \<lparr>ar_authenticated = True, ar_role = Some role,
                          ar_userId = Some (''api-key:'' @ take 14 key),
                          ar_error = None\<rparr>, w)
                | _ \<Rightarrow> (Inl TypeError, w))
          else (Inr \<lparr>ar_authenticated = True, ar_role = Some role,
                     ar_userId = Some ''env-role'', ar_error = None\<rparr>, w))"

subsection \<open>Permission evaluation\<close>

text \<open>
  \<open>getAllowedTools\<close> returns \<open>roleConfig.tools\<close> as it finds it: an array, or
  \<open>undefined\<close> (\<open>None\<close>) when the value under the role key has no such property.
\<close>

definition getAllowedTools :: "string \<Rightarrow> ('v, string list option) run" where
  "getAllowedTools role w =
     (let config = w_config w;
          roleConfig = roles_get (roles config) role
      in if \<not> truthy roleConfig then (Inr (Some []), w)
         else if tools_of roleConfig = Str ''*'' then (Inr (Some (knownTools config)), w)
         else (case tools_of roleConfig of
                 Arr ts \<Rightarrow> (Inr (Some ts), w)
               | _ \<Rightarrow> (Inr None, w)))"

definition getBlockedTools :: "string \<Rightarrow> ('v, string list) run" where
  "getBlockedTools role w =
     (let config = w_config w;
          roleConfig = roles_get (roles config) role
      in if \<not> truthy roleConfig \<or> tools_of roleConfig = Str ''*'' then (Inr [], w)
         else (case blockedTools_of roleConfig of
                 Arr bs \<Rightarrow> (Inr bs, w)
               | _ \<Rightarrow> (Inr [], w)))"

text \<open>\<open>role || getRoleFromEnv()\<close>, for the optional parameter \<open>role?: string\<close>.\<close>

definition currentRole :: "string option \<Rightarrow> ('v, js_value) run" where
  "currentRole role w =
     (case role of
        Some r \<Rightarrow> if r \<noteq> [] then (Inr (Str r), w) else getRoleFromEnv w
      | None \<Rightarrow> getRoleFromEnv w)"

text \<open>\<open>roleConfig.tools.includes(toolName)\<close> throws when \<open>roleConfig.tools\<close> is \<open>undefined\<close>.\<close>

definition isToolAllowed :: "string \<Rightarrow> string option \<Rightarrow> ('v, bool) run" where
  "isToolAllowed toolName role =
     andThen (currentRole role) (\<lambda>current w.
       let config = w_config w;
           roleConfig = roles_get (roles config) (js_toString current)
       in if \<not> truthy roleConfig then (Inr False, w)
          else if tools_of roleConfig = Str ''*'' then (Inr True, w)
          else (case tools_of roleConfig of
                  Arr ts \<Rightarrow> (Inr (toolName \<in> set ts), w)
                | _ \<Rightarrow> (Inl TypeError, w)))"

subsection \<open>Filtering a collection of tools\<close>

text \<open>The object literal \<open>{}\<close>: a new object with no entries.\<close>

definition new_object :: "('v, nat) run" where
  "new_object w = (Inr (length (w_store w)), w\<lparr>w_store := w_store w @ [[]]\<rparr>)"

text \<open>One round of the loop: \<open>if (allowedTools.has(name)) filtered[name] = tool\<close>.\<close>

definition copyIfAllowed ::
  "string list \<Rightarrow> nat \<Rightarrow> 'v store \<Rightarrow> string \<times> 'v \<Rightarrow> 'v store" where
  "copyIfAllowed ts filtered h entry =
     (if fst entry \<in> set ts
      then h[filtered := js_assign (h ! filtered) (fst entry) (snd entry)]
      else h)"

text \<open>\<open>new Set(roleConfig.tools)\<close> is the empty set when \<open>roleConfig.tools\<close> is \<open>undefined\<close>.\<close>

definition filterTools :: "nat \<Rightarrow> string option \<Rightarrow> ('v, nat) run" where
  "filterTools tools role =
     andThen (currentRole role) (\<lambda>current w.
       let config = w_config w;
           roleConfig = roles_get (roles config) (js_toString current)
       in if \<not> truthy roleConfig then new_object w
          else if tools_of roleConfig = Str ''*'' then (Inr tools, w)
          else (let allowedTools = (case tools_of roleConfig of Arr ts \<Rightarrow> ts | _ \<Rightarrow> [])
                in andThen new_object (\<lambda>filtered w1.
                     (Inr filtered,
                      w1\<lparr>w_store := foldl (copyIfAllowed allowedTools filtered)
                                       (w_store w1) (w_store w1 ! tools)\<rparr>)) w))"

subsection \<open>Introspection\<close>

definition getToolFilter :: "('v, ToolFilter) run" where
  "getToolFilter =
     andThen authenticateAgent (\<lambda>auth w.
       let config = w_config w;
           role = (case ar_role auth of
                     Some r \<Rightarrow> if truthy r then r else Str (defaultRole config)
                   | None \<Rightarrow> Str (defaultRole config))
       in andThen (getAllowedTools (js_toString role)) (\<lambda>allowed.
          andThen (getBlockedTools (js_toString role)) (\<lambda>blocked w2.
            (Inr \<lparr>tf_allowedTools = allowed, tf_blockedTools = blocked, tf_role = role,
                  tf_userId = (case ar_userId auth of
                                 Some u \<Rightarrow> if u \<noteq> [] then u else ''anonymous''
                               | None \<Rightarrow> ''anonymous'')\<rparr>, w2))) w)"

definition getRoles :: "('v, RoleInfo list) run" where
  "getRoles w =
     (let config = w_config w
      in (Inr (map (\<lambda>(key, roleConfig).
                      \<lparr>ri_key = key, ri_name = rc_name roleConfig,
                       ri_description = rc_description roleConfig,
                       ri_accessLevel = rc_accessLevel roleConfig,
                       ri_toolCount = (case rc_tools roleConfig of
                                         AllTools \<Rightarrow> length (knownTools config)
                                       | ToolList ts \<Rightarrow> length ts)\<rparr>)
                   (role_entries (roles config))), w))"

text \<open>
  \<open>config.roles[role] || config.roles[config.defaultRole]!\<close> is the second value
  when the first is not truthy. Reading \<open>roleConfig.name\<close> throws when \<open>roleConfig\<close>
  is \<open>undefined\<close>, and reading \<open>allowed.length\<close> throws when \<open>allowed\<close> is.
\<close>

definition getAgentInfo :: "('v, AgentInfo) run" where
  "getAgentInfo =
     andThen getRoleFromEnv (\<lambda>role w.
       let config = w_config w;
           roleConfig = (if truthy (roles_get (roles config) (js_toString role))
                         then roles_get (roles config) (js_toString role)
                         else roles_get (roles config) (defaultRole config))
       in andThen (getAllowedTools (js_toString role)) (\<lambda>allowed.
          andThen (getBlockedTools (js_toString role)) (\<lambda>blocked w2.
            if roleConfig = Undefined then (Inl TypeError, w2)
            else (case allowed of
                    None \<Rightarrow> (Inl TypeError, w2)
                  | Some ts \<Rightarrow>
                      (Inr \<lparr>ai_role = role, ai_name = name_of roleConfig,
                            ai_description = description_of roleConfig,
                            ai_allowedToolCount = length ts,
                            ai_blockedToolCount = length blocked\<rparr>, w2)))) w)"

subsection \<open>Runtime extension\<close>

definition registerRole :: "string \<Rightarrow> RoleConfig \<Rightarrow> ('v, unit) run" where
  "registerRole key roleConfig w =
     (Inr (),
      w\<lparr>w_config := (w_config w)\<lparr>roles := roles_assign (roles (w_config w)) key roleConfig\<rparr>\<rparr>)"

definition mapApiKey :: "string \<Rightarrow> string \<Rightarrow> ('v, unit) run" where
  "mapApiKey prefix role w =
     (Inr (),
      w\<lparr>w_config := (w_config w)\<lparr>apiKeyMap := js_assign (apiKeyMap (w_config w)) prefix role\<rparr>\<rparr>)"

subsection \<open>Construction (defaults.ts, createMCPAuth)\<close>

text \<open>The four entries of \<open>DEFAULT_ROLES\<close>, then the object itself.\<close>

definition adminRole :: RoleConfig where
  "adminRole =
     \<lparr>rc_name = ''Admin'', rc_description = ''Full access to all operations'',
      rc_accessLevel = Full, rc_tools = AllTools, rc_blockedTools = None\<rparr>"

definition editorRole :: RoleConfig where
  "editorRole =
     \<lparr>rc_name = ''Editor'',
      rc_description = ''Can read/write content but not modify structure'',
      rc_accessLevel = Limited,
      rc_tools = ToolList
        [''list_content_types'', ''get_content_type'', ''get_structure_summary'',
         ''list_entries'', ''get_entry'', ''create_entry'', ''update_entry'',
         ''delete_entry'', ''publish_entry'', ''unpublish_entry'',
         ''list_taxonomies'', ''get_taxonomy'',
         ''list_terms'', ''get_term'', ''assign_terms'', ''get_entries_by_term'',
         ''search'', ''search_in_content_type'', ''search_suggest'',
         ''scheduler_status'', ''scheduler_upcoming'', ''schedule_entry'',
         ''cancel_schedule'',
         ''revision_list'', ''revision_compare'', ''revision_stats''],
      rc_blockedTools = Some
        [''create_content_type'', ''delete_content_type'', ''import_structure'',
         ''export_structure'', ''create_taxonomy'', ''delete_taxonomy'',
         ''create_term'', ''update_term'', ''delete_term'',
         ''list_users'', ''get_user'', ''create_user'', ''update_user'',
         ''update_user_role'', ''delete_user'',
         ''create_api_key'', ''list_api_keys'', ''revoke_api_key'',
         ''webhook_list'', ''webhook_create'', ''webhook_test'', ''webhook_stats'',
         ''backup_create'', ''backup_list'', ''backup_restore'', ''backup_stats'',
         ''audit_recent'', ''audit_query'', ''audit_resource_history'',
         ''audit_stats'']\<rparr>"

definition authorRole :: RoleConfig where
  "authorRole =
     \<lparr>rc_name = ''Author'', rc_description = ''Can create and manage own content'',
      rc_accessLevel = Limited,
      rc_tools = ToolList
        [''list_content_types'', ''get_content_type'', ''get_structure_summary'',
         ''list_entries'', ''get_entry'', ''create_entry'', ''update_entry'',
         ''list_taxonomies'', ''get_taxonomy'',
         ''list_terms'', ''get_term'', ''assign_terms'',
         ''search'', ''search_in_content_type'', ''search_suggest''],
      rc_blockedTools = None\<rparr>"

definition viewerRole :: RoleConfig where
  "viewerRole =
     \<lparr>rc_name = ''Viewer'', rc_description = ''Read-only access to content'',
      rc_accessLevel = Limited,
      rc_tools = ToolList
        [''list_content_types'', ''get_content_type'', ''get_structure_summary'',
         ''list_entries'', ''get_entry'',
         ''list_taxonomies'', ''get_taxonomy'',
         ''list_terms'', ''get_term'', ''get_entries_by_term'',
         ''search'', ''search_in_content_type'', ''search_suggest''],
      rc_blockedTools = None\<rparr>"

definition DEFAULT_ROLES :: "RoleConfig js_object" where
  "DEFAULT_ROLES =
     [(''admin'', adminRole), (''editor'', editorRole),
      (''author'', authorRole), (''viewer'', viewerRole)]"

definition DEFAULT_KNOWN_TOOLS :: "string list" where
  "DEFAULT_KNOWN_TOOLS =
     [''list_content_types'', ''get_content_type'', ''create_content_type'',
      ''delete_content_type'',
      ''list_entries'', ''get_entry'', ''create_entry'', ''update_entry'',
      ''delete_entry'', ''publish_entry'', ''unpublish_entry'',
      ''list_taxonomies'', ''get_taxonomy'', ''create_taxonomy'', ''delete_taxonomy'',
      ''list_terms'', ''get_term'', ''create_term'', ''update_term'', ''delete_term'',
      ''assign_terms'', ''get_entries_by_term'',
      ''list_users'', ''get_user'', ''create_user'', ''update_user'',
      ''update_user_role'', ''delete_user'',
      ''create_api_key'', ''list_api_keys'', ''revoke_api_key'',
      ''search'', ''search_in_content_type'', ''search_suggest'',
      ''scheduler_status'', ''scheduler_upcoming'', ''schedule_entry'',
      ''cancel_schedule'',
      ''audit_recent'', ''audit_query'', ''audit_resource_history'', ''audit_stats'',
      ''revision_list'', ''revision_compare'', ''revision_stats'',
      ''webhook_list'', ''webhook_create'', ''webhook_test'', ''webhook_stats'',
      ''backup_create'', ''backup_list'', ''backup_restore'', ''backup_stats'',
      ''export_structure'', ''import_structure'', ''get_structure_summary'']"

text \<open>
  The caller's \<open>userConfig: MCPAuthConfig\<close>, every field optional. An object spread
  \<open>{...a, ...b}\<close> defines the entries of \<open>a\<close>, then those of \<open>b\<close>, on a new object;
  \<open>x ?? d\<close> is \<open>d\<close> only when \<open>x\<close> is undefined.
\<close>

record UserConfig =
  uc_roles :: "RoleConfig js_object option"
  uc_defaultRole :: "string option"
  uc_apiKeyMap :: "string js_object option"
  uc_knownTools :: "string list option"
  uc_roleEnvVar :: "string option"
  uc_apiKeyEnvVar :: "string option"

definition spread :: "'v js_object \<Rightarrow> 'v js_object \<Rightarrow> 'v js_object" where
  "spread obj entries = foldl (\<lambda>acc (k, v). js_define acc k v) obj entries"

definition createMCPAuth :: "UserConfig \<Rightarrow> MCPAuthConfig" where
  "createMCPAuth userConfig =
     \<lparr>roles = \<lparr>role_entries =
                  spread (spread [] DEFAULT_ROLES)
                    (case uc_roles userConfig of Some rs \<Rightarrow> rs | None \<Rightarrow> []),
                role_proto = None\<rparr>,
      defaultRole = (case uc_defaultRole userConfig of Some d \<Rightarrow> d | None \<Rightarrow> ''viewer''),
      apiKeyMap = (case uc_apiKeyMap userConfig of Some m \<Rightarrow> m | None \<Rightarrow> []),
      knownTools = (case uc_knownTools userConfig of Some ts \<Rightarrow> ts
                    | None \<Rightarrow> DEFAULT_KNOWN_TOOLS),
      roleEnvVar = (case uc_roleEnvVar userConfig of Some n \<Rightarrow> n | None \<Rightarrow> ''AGENT_ROLE''),
      apiKeyEnvVar = (case uc_apiKeyEnvVar userConfig of Some n \<Rightarrow> n
                      | None \<Rightarrow> ''AGENT_API_KEY'')\<rparr>"

text \<open>\<open>createMCPAuth()\<close>, the configuration of the default instance \<open>mcpAuth\<close>.\<close>

definition noUserConfig :: UserConfig where
  "noUserConfig =
     \<lparr>uc_roles = None, uc_defaultRole = None, uc_apiKeyMap = None,
      uc_knownTools = None, uc_roleEnvVar = None, uc_apiKeyEnvVar = None\<rparr>"

definition mcpAuth :: MCPAuthConfig where
  "mcpAuth = createMCPAuth noUserConfig"


subsection \<open>Auxiliary definitions: notions used in the statements, examples, the loop body\<close>

definition worldOf :: "MCPAuthConfig \<Rightarrow> process_env \<Rightarrow> 'v store \<Rightarrow> 'v world" where
  "worldOf config env h = \<lparr>w_config = config, w_env = env, w_store = h\<rparr>"

text \<open>A store in which nothing has been allocated; the entries' values are numbers here.\<close>

definition noObjects :: "nat store" where
  "noObjects = []"

text \<open>The world that a call leaves.\<close>

definition after :: "('v, 'a) run \<Rightarrow> 'v world \<Rightarrow> 'v world" where
  "after f w = snd (f w)"

definition noEnv :: process_env where
  "noEnv = (\<lambda>name. Undefined)"

definition setenv :: "process_env \<Rightarrow> string \<Rightarrow> string \<Rightarrow> process_env" where
  "setenv env name v = env(name := Str v)"

text \<open>An ambient value that is not set, or set to the empty string.\<close>

definition absent :: "js_value \<Rightarrow> bool" where
  "absent v = (v = Undefined \<or> v = Str [])"

text \<open>
  The role definition registered under a key: the one that construction or the last
  \<open>registerRole\<close> for this key has put there. For the key \<open>__proto__\<close> this is, unless
  the key is an own one, the prototype that the assignment has installed.
\<close>

definition registered :: "RolesObject \<Rightarrow> string \<Rightarrow> RoleConfig option" where
  "registered obj k =
     (case map_of (role_entries obj) k of
        Some rc \<Rightarrow> Some rc
      | None \<Rightarrow> if k = ''__proto__'' then role_proto obj else None)"

text \<open>
  A key under which no role is registered, but under which \<open>config.roles[k]\<close> finds
  a property of the prototype.
\<close>

definition inherits :: "RolesObject \<Rightarrow> string \<Rightarrow> bool" where
  "inherits obj k = (registered obj k = None \<and> roles_get obj k \<noteq> Undefined)"

text \<open>The names of the members of \<open>Object.prototype\<close>.\<close>

definition prototypeMember :: "string \<Rightarrow> bool" where
  "prototypeMember k = (inherited_get k \<noteq> Undefined)"

text \<open>The loop body of \<open>filterTools\<close> on the new object alone.\<close>

definition copyEntry :: "string list \<Rightarrow> 'v js_object \<Rightarrow> string \<times> 'v \<Rightarrow> 'v js_object" where
  "copyEntry ts obj entry =
     (if fst entry \<in> set ts then js_assign obj (fst entry) (snd entry) else obj)"

text \<open>A configuration whose default role is not registered.\<close>

definition ghostDefault :: MCPAuthConfig where
  "ghostDefault = createMCPAuth (noUserConfig\<lparr>uc_defaultRole := Some ''ghost''\<rparr>)"

text \<open>A collection of three tools; the entries' values are numbers here.\<close>

definition demoTools :: "nat js_object" where
  "demoTools = [(''search'', 1), (''create_user'', 2), (''list_entries'', 3)]"

text \<open>The roles and the collection that the repository's tests build.\<close>

definition customRole :: RoleConfig where
  "customRole =
     \<lparr>rc_name = ''Custom'', rc_description = ''Custom role'', rc_accessLevel = Limited,
      rc_tools = ToolList [''tool1''], rc_blockedTools = None\<rparr>"

definition testerRole :: RoleConfig where
  "testerRole =
     \<lparr>rc_name = ''Tester'', rc_description = ''Test role'', rc_accessLevel = Limited,
      rc_tools = ToolList [''list_entries''], rc_blockedTools = None\<rparr>"

definition testTools :: "string js_object" where
  "testTools =
     [(''list_entries'', ''list_entries''), (''create_user'', ''create_user''),
      (''search'', ''search'')]"

section \<open>Properties\<close>

subsection \<open>Prefixes and the prefix scan\<close>

lemma startsWith_iff: "startsWith s p \<longleftrightarrow> (\<exists>rest. s = p @ rest)"
proof
  assume "startsWith s p"
  then have "s = p @ drop (length p) s"
    by (metis append_take_drop_id startsWith_def)
  then show "\<exists>rest. s = p @ rest" ..
next
  assume "\<exists>rest. s = p @ rest"
  then show "startsWith s p" by (auto simp: startsWith_def)
qed

lemma firstPrefixMatch_None:
  "firstPrefixMatch apiKey m = None \<longleftrightarrow> (\<forall>j < length m. \<not> startsWith apiKey (fst (m ! j)))"
proof (induction m)
  case Nil
  show ?case by simp
next
  case (Cons e m)
  obtain p r where e: "e = (p, r)" by (cases e)
  show ?case
    unfolding e using Cons.IH
    by (auto simp: nth_Cons split: nat.splits)
qed

lemma firstPrefixMatch_first:
  "i < length m \<Longrightarrow> startsWith apiKey (fst (m ! i)) \<Longrightarrow>
   \<forall>j < i. \<not> startsWith apiKey (fst (m ! j)) \<Longrightarrow>
   firstPrefixMatch apiKey m = Some (snd (m ! i))"
proof (induction m arbitrary: i)
  case Nil
  then show ?case by simp
next
  case (Cons e m)
  obtain p r where e: "e = (p, r)" by (cases e)
  show ?case
  proof (cases i)
    case 0
    then show ?thesis using Cons.prems e by simp
  next
    case (Suc k)
    have "\<not> startsWith apiKey p" using Cons.prems(3) Suc e by fastforce
    moreover have "firstPrefixMatch apiKey m = Some (snd (m ! k))"
    proof (rule Cons.IH)
      show "k < length m" using Cons.prems(1) Suc by simp
      show "startsWith apiKey (fst (m ! k))" using Cons.prems(2) Suc by simp
      show "\<forall>j<k. \<not> startsWith apiKey (fst (m ! j))"
        using Cons.prems(3) Suc by fastforce
    qed
    ultimately show ?thesis using Suc e by simp
  qed
qed

subsection \<open>Reading role keys and prefixes\<close>

lemma inherited_get_simps:
  "inherited_get ''__proto__'' = ObjectPrototype"
  "inherited_get ''constructor'' = Fun ''Object''"
  "inherited_get ''toString'' = Fun ''toString''"
  "inherited_get ''toLocaleString'' = Fun ''toLocaleString''"
  by (simp_all add: inherited_get_def objectPrototypeMethods_def)

lemma prototypeMember_iff:
  "prototypeMember k \<longleftrightarrow> k \<in> set (''__proto__'' # ''constructor'' # objectPrototypeMethods)"
  by (simp add: prototypeMember_def inherited_get_def)

lemma inherited_get_not_member: "\<not> prototypeMember k \<Longrightarrow> inherited_get k = Undefined"
  by (simp add: prototypeMember_def)

lemma inherited_get_not_RoleObj: "inherited_get k \<noteq> RoleObj rc"
  by (simp add: inherited_get_def)

lemma inherited_get_not_Str: "inherited_get k \<noteq> Str s"
  by (simp add: inherited_get_def)

lemma truthy_inherited_get: "truthy (inherited_get k) \<longleftrightarrow> prototypeMember k"
  by (simp add: prototypeMember_def inherited_get_def)

lemma roleConfig_get_not_RoleObj: "roleConfig_get p k \<noteq> RoleObj rc"
  by (simp add: roleConfig_get_def inherited_get_def split: tool_set.splits option.splits)

text \<open>A lookup yields a role definition exactly for a registered key.\<close>

lemma roles_get_RoleObj_iff: "roles_get obj k = RoleObj rc \<longleftrightarrow> registered obj k = Some rc"
  by (auto simp: roles_get_def registered_def inherited_get_not_RoleObj
      roleConfig_get_not_RoleObj split: option.splits)

lemma roles_get_registered: "registered obj k = Some rc \<Longrightarrow> roles_get obj k = RoleObj rc"
  by (simp add: roles_get_RoleObj_iff)

lemma roles_get_unregistered:
  "registered obj k = None \<Longrightarrow> \<not> inherits obj k \<Longrightarrow> roles_get obj k = Undefined"
  by (simp add: inherits_def)

lemma registered_own: "map_of (role_entries obj) k = Some rc \<Longrightarrow> registered obj k = Some rc"
  by (simp add: registered_def)

lemma registered_None_not_own:
  "registered obj k = None \<Longrightarrow> k \<notin> fst ` set (role_entries obj)"
  by (auto simp: registered_def map_of_eq_None_iff split: option.splits if_splits)

text \<open>What is found under an unregistered key has no tools.\<close>

lemma tools_of_unregistered: "registered obj k = None \<Longrightarrow> tools_of (roles_get obj k) = Undefined"
proof -
  assume "registered obj k = None"
  then have "\<And>rc. roles_get obj k \<noteq> RoleObj rc" by (simp add: roles_get_RoleObj_iff)
  then show ?thesis by (cases "roles_get obj k") auto
qed

lemma blockedTools_of_unregistered:
  "registered obj k = None \<Longrightarrow> blockedTools_of (roles_get obj k) = Undefined"
proof -
  assume "registered obj k = None"
  then have "\<And>rc. roles_get obj k \<noteq> RoleObj rc" by (simp add: roles_get_RoleObj_iff)
  then show ?thesis by (cases "roles_get obj k") auto
qed

lemma tools_of_RoleObj:
  "tools_of (RoleObj rc) = (case rc_tools rc of AllTools \<Rightarrow> Str ''*'' | ToolList ts \<Rightarrow> Arr ts)"
  by (simp add: roleConfig_get_def)

lemma blockedTools_of_RoleObj:
  "blockedTools_of (RoleObj rc) = (case rc_blockedTools rc of Some bs \<Rightarrow> Arr bs | None \<Rightarrow> Undefined)"
  by (simp add: roleConfig_get_def)

lemma name_of_RoleObj: "name_of (RoleObj rc) = Str (rc_name rc)"
  by (simp add: roleConfig_get_def)

lemma description_of_RoleObj: "description_of (RoleObj rc) = Str (rc_description rc)"
  by (simp add: roleConfig_get_def)

lemma apiKeyMap_get_own: "map_of m k = Some role \<Longrightarrow> apiKeyMap_get m k = Str role"
  by (simp add: apiKeyMap_get_def)

lemma apiKeyMap_get_none:
  "map_of m k = None \<Longrightarrow> \<not> prototypeMember k \<Longrightarrow> apiKeyMap_get m k = Undefined"
  by (simp add: apiKeyMap_get_def inherited_get_not_member)

subsection \<open>The world\<close>

lemma worldOf_simps:
  "w_config (worldOf config env h) = config"
  "w_env (worldOf config env h) = env"
  "w_store (worldOf config env h) = h"
  by (simp_all add: worldOf_def)

lemma worldOf_store_update: "(worldOf config env h)\<lparr>w_store := s\<rparr> = worldOf config env s"
  by (simp add: worldOf_def)

lemma getenv_simps:
  "noEnv name = Undefined"
  "setenv env name v name' = (if name' = name then Str v else env name')"
  by (simp_all add: noEnv_def setenv_def)

lemma absent_simps:
  "absent Undefined" "absent (Str s) \<longleftrightarrow> s = []"
  "\<not> absent (Arr ts)" "\<not> absent (RoleObj rc)" "\<not> absent (Fun n)" "\<not> absent ObjectPrototype"
  by (simp_all add: absent_def)

lemma absent_not_truthy: "absent v \<Longrightarrow> \<not> truthy v"
  by (auto simp: absent_def)

subsection \<open>The default instance\<close>

lemmas js_define_eval = js_define_def key_precedes_def is_array_index_def is_digit_def

lemma roles_mcpAuth: "roles mcpAuth = \<lparr>role_entries = DEFAULT_ROLES, role_proto = None\<rparr>"
  by (simp add: mcpAuth_def createMCPAuth_def noUserConfig_def spread_def DEFAULT_ROLES_def
      js_define_eval)

lemma knownTools_mcpAuth: "knownTools mcpAuth = DEFAULT_KNOWN_TOOLS"
  by (simp add: mcpAuth_def createMCPAuth_def noUserConfig_def)

lemma defaultRole_mcpAuth: "defaultRole mcpAuth = ''viewer''"
  by (simp add: mcpAuth_def createMCPAuth_def noUserConfig_def)

lemma envVars_mcpAuth:
  "roleEnvVar mcpAuth = ''AGENT_ROLE''" "apiKeyEnvVar mcpAuth = ''AGENT_API_KEY''"
  by (simp_all add: mcpAuth_def createMCPAuth_def noUserConfig_def)

lemma apiKeyMap_mcpAuth: "apiKeyMap mcpAuth = []"
  by (simp add: mcpAuth_def createMCPAuth_def noUserConfig_def)

lemma role_keys_mcpAuth:
  "map fst (role_entries (roles mcpAuth)) = [''admin'', ''editor'', ''author'', ''viewer'']"
  by (simp add: roles_mcpAuth DEFAULT_ROLES_def)

lemma registered_mcpAuth:
  "registered (roles mcpAuth) k =
     (if k = ''admin'' then Some adminRole else if k = ''editor'' then Some editorRole
      else if k = ''author'' then Some authorRole else if k = ''viewer'' then Some viewerRole
      else None)"
  by (simp add: roles_mcpAuth DEFAULT_ROLES_def registered_def)

lemma roles_get_mcpAuth:
  "roles_get (roles mcpAuth) k =
     (if k = ''admin'' then RoleObj adminRole else if k = ''editor'' then RoleObj editorRole
      else if k = ''author'' then RoleObj authorRole else if k = ''viewer'' then RoleObj viewerRole
      else inherited_get k)"
  by (simp add: roles_mcpAuth DEFAULT_ROLES_def roles_get_def)

lemma inherits_mcpAuth:
  "inherits (roles mcpAuth) k \<longleftrightarrow> prototypeMember k"
  by (auto simp: inherits_def registered_mcpAuth roles_get_mcpAuth prototypeMember_def
      inherited_get_def objectPrototypeMethods_def)

lemma ghostDefault_fields:
  "roles ghostDefault = roles mcpAuth"
  "defaultRole ghostDefault = ''ghost''"
  "apiKeyMap ghostDefault = []"
  "knownTools ghostDefault = DEFAULT_KNOWN_TOOLS"
  "roleEnvVar ghostDefault = ''AGENT_ROLE''"
  "apiKeyEnvVar ghostDefault = ''AGENT_API_KEY''"
  by (simp_all add: ghostDefault_def mcpAuth_def createMCPAuth_def noUserConfig_def)


subsection \<open>Assignment keeps objects well formed\<close>

text \<open>
  Two array indices with the same numeric value are the same string, so of two
  different keys one precedes the other; hence \<open>js_insert\<close> puts a new key at its
  place in the enumeration order, and \<open>js_define\<close> keeps an object well formed.
\<close>

lemma dec_value_snoc: "dec_value (s @ [c]) = 10 * dec_value s + ((of_char c :: nat) - 48)"
  by (simp add: dec_value_def)

lemma dec_value_Nil: "dec_value [] = 0"
  by (simp add: dec_value_def)

lemma digit_range: "is_digit c \<Longrightarrow> (of_char c :: nat) - 48 < 10"
  by (auto simp: is_digit_def)

lemma digit_inj:
  assumes "is_digit c" and "is_digit d"
    and "(of_char c :: nat) - 48 = (of_char d :: nat) - 48"
  shows "c = d"
proof -
  have "48 \<le> (of_char c :: nat)" "48 \<le> (of_char d :: nat)"
    using assms(1,2) by (simp_all add: is_digit_def)
  then have "(of_char c :: nat) = of_char d" using assms(3) by linarith
  then show "c = d" by (simp only: of_char_eq_iff)
qed

lemma digit_nonzero:
  assumes "is_digit c" and "c \<noteq> CHR ''0''"
  shows "0 < (of_char c :: nat) - 48"
proof -
  have zero: "is_digit (CHR ''0'')" "(of_char (CHR ''0'') :: nat) - 48 = 0"
    by (simp_all add: is_digit_def)
  have "(of_char c :: nat) - 48 \<noteq> 0"
    using digit_inj[OF assms(1) zero(1)] assms(2) zero(2) by auto
  then show ?thesis by simp
qed

lemma dec_value_upper: "list_all is_digit s \<Longrightarrow> dec_value s < 10 ^ length s"
proof (induction s rule: rev_induct)
  case Nil
  show ?case by (simp add: dec_value_Nil)
next
  case (snoc c s)
  have "dec_value s < 10 ^ length s" using snoc by simp
  moreover have "(of_char c :: nat) - 48 < 10" using snoc.prems by (simp add: digit_range)
  ultimately show ?case by (simp add: dec_value_snoc)
qed

lemma dec_value_lower:
  "list_all is_digit s \<Longrightarrow> s \<noteq> [] \<Longrightarrow> hd s \<noteq> CHR ''0'' \<Longrightarrow> 10 ^ (length s - 1) \<le> dec_value s"
proof (induction s rule: rev_induct)
  case Nil
  then show ?case by simp
next
  case (snoc c s)
  show ?case
  proof (cases "s = []")
    case True
    have "is_digit c" "c \<noteq> CHR ''0''" using snoc.prems True by simp_all
    then have "0 < (of_char c :: nat) - 48" by (rule digit_nonzero)
    moreover have "dec_value (s @ [c]) = 10 * dec_value s + ((of_char c :: nat) - 48)"
      by (rule dec_value_snoc)
    ultimately have "0 < dec_value (s @ [c])" by simp
    then show ?thesis using True by simp
  next
    case False
    then have "10 ^ (length s - 1) \<le> dec_value s"
      using snoc by simp
    then have "10 * 10 ^ (length s - 1) \<le> 10 * dec_value s" by simp
    moreover have "10 * 10 ^ (length s - 1) = (10::nat) ^ length s"
      using False by (cases s) simp_all
    ultimately show ?thesis by (simp add: dec_value_snoc)
  qed
qed

lemma decimal_step_unique:
  fixes a b x y :: nat
  assumes "x < 10" "y < 10" "10 * a + x = 10 * b + y"
  shows "a = b \<and> x = y"
proof -
  have "(10 * a + x) div 10 = a" "(10 * b + y) div 10 = b"
    using assms(1,2) by simp_all
  then have "a = b" using assms(3) by simp
  then show ?thesis using assms(3) by simp
qed

lemma dec_value_inj_same_length:
  "list_all is_digit s \<Longrightarrow> list_all is_digit t \<Longrightarrow> length s = length t \<Longrightarrow>
   dec_value s = dec_value t \<Longrightarrow> s = t"
proof (induction s arbitrary: t rule: rev_induct)
  case Nil
  then show ?case by simp
next
  case (snoc c s)
  have "t \<noteq> []" using snoc.prems(3) by auto
  then obtain d t' where t: "t = t' @ [d]"
    by (metis rev_exhaust)
  have len: "length s = length t'" using snoc.prems(3) t by simp
  have dc: "(of_char c :: nat) - 48 < 10" and dd: "(of_char d :: nat) - 48 < 10"
    using snoc.prems(1,2) t by (simp_all add: digit_range)
  have eq: "10 * dec_value s + ((of_char c :: nat) - 48) =
            10 * dec_value t' + ((of_char d :: nat) - 48)"
    using snoc.prems(4) t by (simp add: dec_value_snoc)
  have vals: "dec_value s = dec_value t'" "(of_char c :: nat) - 48 = (of_char d :: nat) - 48"
    using decimal_step_unique[OF dc dd eq] by simp_all
  have "s = t'" using snoc.IH[of t'] snoc.prems(1,2) t len vals(1) by simp
  moreover have "c = d" using snoc.prems(1,2) t vals(2) by (simp add: digit_inj)
  ultimately show ?case using t by simp
qed

lemma is_array_index_zero:
  assumes "is_array_index a" and "dec_value a = 0"
  shows "a = ''0''"
proof (rule ccontr)
  assume "a \<noteq> ''0''"
  then have "list_all is_digit a" "a \<noteq> []" "hd a \<noteq> CHR ''0''"
    using assms(1) by (simp_all add: is_array_index_def)
  then have "10 ^ (length a - 1) \<le> dec_value a" by (rule dec_value_lower)
  then show False using assms(2) by simp
qed

lemma is_array_index_length:
  assumes "is_array_index a" "is_array_index b" "a \<noteq> ''0''" "b \<noteq> ''0''"
    and "length a < length b"
  shows "dec_value a < dec_value b"
proof -
  have "list_all is_digit a" using assms(1) by (simp add: is_array_index_def)
  then have "dec_value a < 10 ^ length a" by (rule dec_value_upper)
  moreover have "(10::nat) ^ length a \<le> 10 ^ (length b - 1)"
    using assms(5) by (intro power_increasing) simp_all
  moreover have "list_all is_digit b" "b \<noteq> []" "hd b \<noteq> CHR ''0''"
    using assms(2,4) by (simp_all add: is_array_index_def)
  then have "10 ^ (length b - 1) \<le> dec_value b" by (rule dec_value_lower)
  ultimately show ?thesis by linarith
qed

lemma is_array_index_inj:
  assumes "is_array_index a" "is_array_index b" "dec_value a = dec_value b"
  shows "a = b"
proof (cases "a = ''0'' \<or> b = ''0''")
  case True
  have zero: "dec_value ''0'' = 0" by (simp add: dec_value_def)
  then have "dec_value a = 0" "dec_value b = 0" using True assms(3) by auto
  then have "a = ''0''" "b = ''0''"
    using is_array_index_zero[OF assms(1)] is_array_index_zero[OF assms(2)] by simp_all
  then show ?thesis by simp
next
  case False
  have "\<not> length a < length b" "\<not> length b < length a"
    using is_array_index_length[of a b] is_array_index_length[of b a] assms False by auto
  then have "length a = length b" by simp
  moreover have "list_all is_digit a" "list_all is_digit b"
    using assms(1,2) by (simp_all add: is_array_index_def)
  ultimately show ?thesis using assms(3) by (simp add: dec_value_inj_same_length)
qed

lemma key_precedes_total:
  assumes "a \<noteq> b" and "\<not> key_precedes a b"
  shows "key_precedes b a"
proof (cases "is_array_index a \<and> is_array_index b")
  case True
  then have "dec_value a \<noteq> dec_value b" using assms(1) is_array_index_inj by blast
  moreover have "\<not> dec_value a < dec_value b" using assms(2) True by (simp add: key_precedes_def)
  ultimately have "dec_value b < dec_value a" by simp
  then show ?thesis using True by (simp add: key_precedes_def)
next
  case False
  then show ?thesis using assms(2) by (auto simp: key_precedes_def split: if_splits)
qed

lemma key_precedes_trans: "key_precedes a b \<Longrightarrow> key_precedes b c \<Longrightarrow> key_precedes a c"
  by (auto simp: key_precedes_def split: if_splits)

lemma set_js_insert: "set (js_insert k v obj) = insert (k, v) (set obj)"
  by (induction obj) (auto split: if_splits)

lemma keys_js_insert: "fst ` set (js_insert k v obj) = insert k (fst ` set obj)"
  by (simp add: set_js_insert)

lemma wf_object_Cons:
  "wf_object (e # obj) \<longleftrightarrow>
   fst e \<notin> fst ` set obj \<and> (\<forall>x \<in> set obj. key_precedes (fst e) (fst x)) \<and> wf_object obj"
  by (auto simp: wf_object_def)

lemma wf_object_js_insert:
  "wf_object obj \<Longrightarrow> k \<notin> fst ` set obj \<Longrightarrow> wf_object (js_insert k v obj)"
proof (induction obj)
  case Nil
  show ?case by (simp add: wf_object_def)
next
  case (Cons e obj)
  obtain k' v' where e: "e = (k', v')" by (cases e)
  have wf: "k' \<notin> fst ` set obj" "\<forall>x \<in> set obj. key_precedes k' (fst x)" "wf_object obj"
    using Cons.prems(1) e by (simp_all add: wf_object_Cons)
  have new: "k \<noteq> k'" "k \<notin> fst ` set obj" using Cons.prems(2) e by auto
  show ?case
  proof (cases "key_precedes k' k")
    case True
    have "wf_object (js_insert k v obj)" using Cons.IH wf(3) new(2) by simp
    moreover have "k' \<notin> fst ` set (js_insert k v obj)"
      using wf(1) new(1) by (simp add: keys_js_insert)
    moreover have "\<forall>x \<in> set (js_insert k v obj). key_precedes k' (fst x)"
    proof
      fix x assume "x \<in> set (js_insert k v obj)"
      then have "fst x \<in> insert k (fst ` set obj)"
        using keys_js_insert[of k v obj] by blast
      then show "key_precedes k' (fst x)" using True wf(2) by auto
    qed
    ultimately show ?thesis using True e by (simp add: wf_object_Cons)
  next
    case False
    then have first: "key_precedes k k'" using new(1) by (simp add: key_precedes_total)
    then have "\<forall>x \<in> set obj. key_precedes k (fst x)"
      using wf(2) key_precedes_trans by blast
    then show ?thesis
      using False first e Cons.prems new by (simp add: wf_object_Cons)
  qed
qed

lemma map_fst_replace:
  "map fst (map (\<lambda>(k', v'). if k' = k then (k', v) else (k', v')) obj) = map fst obj"
  by (induction obj) auto

lemma wf_object_js_define:
  assumes "wf_object obj"
  shows "wf_object (js_define obj k v)"
proof (cases "k \<in> fst ` set obj")
  case True
  have "wf_object (map (\<lambda>(k', v'). if k' = k then (k', v) else (k', v')) obj)"
    unfolding wf_object_def map_fst_replace using assms by (simp only: wf_object_def)
  then show ?thesis using True by (simp add: js_define_def)
next
  case False
  then show ?thesis using assms by (simp add: js_define_def wf_object_js_insert)
qed

lemma keys_js_define: "fst ` set (js_define obj k v) = insert k (fst ` set obj)"
proof (cases "k \<in> fst ` set obj")
  case True
  have "set (map fst (map (\<lambda>(k', v'). if k' = k then (k', v) else (k', v')) obj)) =
        set (map fst obj)"
    by (simp only: map_fst_replace)
  then have "fst ` set (map (\<lambda>(k', v'). if k' = k then (k', v) else (k', v')) obj) =
             fst ` set obj"
    by (simp only: set_map)
  then show ?thesis using True by (auto simp: js_define_def)
next
  case False
  then show ?thesis by (simp add: js_define_def keys_js_insert)
qed

lemma wf_object_Nil: "wf_object []"
  by (simp add: wf_object_def)

text \<open>Reading after an assignment: the assigned key has the new value, every other key its old one.\<close>

lemma map_of_js_insert:
  "k \<notin> fst ` set obj \<Longrightarrow>
   map_of (js_insert k v obj) k' = (if k' = k then Some v else map_of obj k')"
proof (induction obj)
  case Nil
  show ?case by simp
next
  case (Cons e obj)
  obtain a b where e: "e = (a, b)" by (cases e)
  then have "k \<noteq> a" "k \<notin> fst ` set obj" using Cons.prems by auto
  then show ?case using Cons.IH e by auto
qed

lemma map_of_replace:
  "map_of (map (\<lambda>(k', v'). if k' = k then (k', v) else (k', v')) obj) k'' =
   (if k'' = k then (case map_of obj k of None \<Rightarrow> None | Some old \<Rightarrow> Some v)
    else map_of obj k'')"
  by (induction obj) auto

lemma map_of_js_define: "map_of (js_define obj k v) k' = (if k' = k then Some v else map_of obj k')"
proof (cases "k \<in> fst ` set obj")
  case True
  then obtain old where "map_of obj k = Some old"
    using map_of_eq_None_iff[of obj k] by auto
  then show ?thesis using True by (simp add: js_define_def map_of_replace)
next
  case False
  then show ?thesis by (simp add: js_define_def map_of_js_insert)
qed
subsection \<open>What role resolution leaves behind, and what it depends on\<close>

lemma getRoleFromApiKey_world: "snd (getRoleFromApiKey apiKey w) = w"
  by (simp add: getRoleFromApiKey_def Let_def split: js_value.splits option.splits)

lemma getRoleFromEnv_world: "snd (getRoleFromEnv w) = w"
  by (simp add: getRoleFromEnv_def Let_def getRoleFromApiKey_world)

lemma currentRole_world: "snd (currentRole role w) = w"
  by (simp add: currentRole_def getRoleFromEnv_world split: option.splits)

lemma getRoleFromEnv_eq: "getRoleFromEnv w = (r, w') \<Longrightarrow> w' = w"
  using getRoleFromEnv_world[of w] by simp

lemma currentRole_eq: "currentRole role w = (r, w') \<Longrightarrow> w' = w"
  using currentRole_world[of role w] by simp

lemma getRoleFromApiKey_cong:
  "w_config wA = w_config wB \<Longrightarrow>
   fst (getRoleFromApiKey apiKey wA) = fst (getRoleFromApiKey apiKey wB)"
  by (simp add: getRoleFromApiKey_def Let_def split: js_value.splits option.splits)

lemma getRoleFromEnv_cong:
  "w_config wA = w_config wB \<Longrightarrow>
   w_env wA (roleEnvVar (w_config wA)) = w_env wB (roleEnvVar (w_config wA)) \<Longrightarrow>
   w_env wA (apiKeyEnvVar (w_config wA)) = w_env wB (apiKeyEnvVar (w_config wA)) \<Longrightarrow>
   fst (getRoleFromEnv wA) = fst (getRoleFromEnv wB)"
  using getRoleFromApiKey_cong[of wA wB]
  by (simp add: getRoleFromEnv_def Let_def)

lemma currentRole_cong:
  "w_config wA = w_config wB \<Longrightarrow> w_env wA = w_env wB \<Longrightarrow>
   fst (currentRole role wA) = fst (currentRole role wB)"
  using getRoleFromEnv_cong[of wA wB]
  by (simp add: currentRole_def split: option.splits)

lemma currentRole_Some: "role \<noteq> [] \<Longrightarrow> currentRole (Some role) w = (Inr (Str role), w)"
  by (simp add: currentRole_def)

lemma currentRole_empty:
  "currentRole (Some []) w = getRoleFromEnv w" "currentRole None w = getRoleFromEnv w"
  by (simp_all add: currentRole_def)

text \<open>
  Passing the string form of the resolved role as the role argument gives the role
  that was resolved: a non-empty string is taken as it is, the empty string is
  resolved again.
\<close>

lemma currentRole_resolved:
  assumes "getRoleFromEnv w = (Inr current, w)"
  shows "\<exists>again. currentRole (Some (js_toString current)) w = (Inr again, w) \<and>
           js_toString again = js_toString current"
proof (cases "js_toString current = []")
  case True
  then show ?thesis using assms by (simp add: currentRole_def)
next
  case False
  then show ?thesis by (simp add: currentRole_def)
qed

lemma getRoleFromEnv_worldOf:
  "getRoleFromEnv (worldOf config env h) =
     (if truthy (env (roleEnvVar config)) \<and>
         truthy (roles_get (roles config) (js_toString (env (roleEnvVar config))))
      then (Inr (env (roleEnvVar config)), worldOf config env h)
      else if truthy (env (apiKeyEnvVar config))
      then getRoleFromApiKey (env (apiKeyEnvVar config)) (worldOf config env h)
      else (Inr (Str (defaultRole config)), worldOf config env h))"
  by (simp add: getRoleFromEnv_def Let_def worldOf_simps)

lemma getRoleFromApiKey_worldOf:
  "getRoleFromApiKey (Str apiKey) (worldOf config env h) =
     (if truthy (apiKeyMap_get (apiKeyMap config) (take 14 apiKey))
      then (Inr (apiKeyMap_get (apiKeyMap config) (take 14 apiKey)), worldOf config env h)
      else (case firstPrefixMatch apiKey (apiKeyMap config) of
              Some role \<Rightarrow> (Inr (Str role), worldOf config env h)
            | None \<Rightarrow> (Inr (Str (defaultRole config)), worldOf config env h)))"
  by (simp add: getRoleFromApiKey_def Let_def worldOf_simps)

subsection \<open>Building the filtered object\<close>

text \<open>
  A key that follows every key of an object is appended at the end, and the key
  \<open>__proto__\<close> is never added by an assignment; so copying the permitted entries of
  a well-formed object one by one, in order, yields exactly those entries, but for
  one named \<open>__proto__\<close>, in the same order.
\<close>

lemma js_insert_last:
  "\<forall>e \<in> set obj. key_precedes (fst e) k \<Longrightarrow> js_insert k v obj = obj @ [(k, v)]"
  by (induction obj) auto

lemma js_insert_not_index: "\<not> is_array_index k \<Longrightarrow> js_insert k v obj = obj @ [(k, v)]"
  by (rule js_insert_last) (simp add: key_precedes_def)

lemma js_define_last:
  "k \<notin> fst ` set obj \<Longrightarrow> \<forall>e \<in> set obj. key_precedes (fst e) k \<Longrightarrow>
   js_define obj k v = obj @ [(k, v)]"
  by (simp add: js_define_def js_insert_last)

lemma js_assign_last:
  "k \<noteq> ''__proto__'' \<Longrightarrow> k \<notin> fst ` set obj \<Longrightarrow> \<forall>e \<in> set obj. key_precedes (fst e) k \<Longrightarrow>
   js_assign obj k v = obj @ [(k, v)]"
  by (simp add: js_assign_def js_define_last)

lemma js_assign_proto: "''__proto__'' \<notin> fst ` set obj \<Longrightarrow> js_assign obj ''__proto__'' v = obj"
  by (simp add: js_assign_def)

lemma wf_object_js_assign: "wf_object obj \<Longrightarrow> wf_object (js_assign obj k v)"
  by (simp add: js_assign_def wf_object_js_define)

lemma keys_js_assign: "fst ` set (js_assign obj k v) \<subseteq> insert k (fst ` set obj)"
  by (auto simp: js_assign_def keys_js_define)

lemma proto_js_assign:
  "''__proto__'' \<notin> fst ` set obj \<Longrightarrow> ''__proto__'' \<notin> fst ` set (js_assign obj k v)"
  by (cases "k = ''__proto__''") (simp_all add: js_assign_def keys_js_define)

lemma set_js_define: "set (js_define obj k v) \<subseteq> insert (k, v) (set obj)"
  by (auto simp: js_define_def set_js_insert split: if_splits)

lemma set_js_assign: "set (js_assign obj k v) \<subseteq> insert (k, v) (set obj)"
  using set_js_define[of obj k v] by (auto simp: js_assign_def)

lemma map_of_js_assign:
  "k \<noteq> ''__proto__'' \<or> k \<in> fst ` set obj \<Longrightarrow>
   map_of (js_assign obj k v) k' = (if k' = k then Some v else map_of obj k')"
  by (auto simp: js_assign_def map_of_js_define)

lemma wf_object_butlast: "wf_object (es @ [e]) \<Longrightarrow> wf_object es"
  by (simp add: wf_object_def sorted_wrt_append)

lemma wf_object_last:
  "wf_object (es @ [e]) \<Longrightarrow>
   fst e \<notin> fst ` set es \<and> (\<forall>x \<in> set es. key_precedes (fst x) (fst e))"
  by (auto simp: wf_object_def sorted_wrt_append)

lemma wf_object_filter: "wf_object obj \<Longrightarrow> wf_object (filter P obj)"
  by (simp add: wf_object_def distinct_map_filter sorted_wrt_map sorted_wrt_filter)

lemma foldl_copyEntry:
  "wf_object es \<Longrightarrow>
   foldl (copyEntry ts) [] es = filter (\<lambda>e. fst e \<in> set ts \<and> fst e \<noteq> ''__proto__'') es"
proof (induction es rule: rev_induct)
  case Nil
  show ?case by simp
next
  case (snoc e es)
  let ?F = "filter (\<lambda>e. fst e \<in> set ts \<and> fst e \<noteq> ''__proto__'') es"
  have wf: "wf_object es" using snoc.prems by (rule wf_object_butlast)
  have last: "fst e \<notin> fst ` set es" "\<forall>x \<in> set es. key_precedes (fst x) (fst e)"
    using wf_object_last[OF snoc.prems] by auto
  have ih: "foldl (copyEntry ts) [] es = ?F"
    using snoc.IH wf by simp
  have step: "foldl (copyEntry ts) [] (es @ [e]) = copyEntry ts ?F e"
    using ih by simp
  show ?case
  proof (cases "fst e \<in> set ts \<and> fst e \<noteq> ''__proto__''")
    case True
    have "js_assign ?F (fst e) (snd e) = ?F @ [(fst e, snd e)]"
      using last True by (intro js_assign_last) auto
    then show ?thesis unfolding step using True by (simp add: copyEntry_def)
  next
    case False
    have "''__proto__'' \<notin> fst ` set ?F" by auto
    then have "js_assign ?F ''__proto__'' (snd e) = ?F" by (rule js_assign_proto)
    then show ?thesis unfolding step using False by (auto simp: copyEntry_def)
  qed
qed

lemma foldl_copyEntry_no_proto:
  "wf_object es \<Longrightarrow> ''__proto__'' \<notin> fst ` set es \<Longrightarrow>
   foldl (copyEntry ts) [] es = filter (\<lambda>e. fst e \<in> set ts) es"
proof -
  assume wf: "wf_object es" and "''__proto__'' \<notin> fst ` set es"
  then have "filter (\<lambda>e. fst e \<in> set ts \<and> fst e \<noteq> ''__proto__'') es =
             filter (\<lambda>e. fst e \<in> set ts) es"
    by (intro filter_cong) (auto simp: image_iff)
  then show ?thesis using foldl_copyEntry[OF wf, of ts] by simp
qed

lemma copyIfAllowed_new:
  "copyIfAllowed ts (length h) (h @ [obj]) e = h @ [copyEntry ts obj e]"
  by (simp add: copyIfAllowed_def copyEntry_def)

lemma foldl_copyIfAllowed_new:
  "foldl (copyIfAllowed ts (length h)) (h @ [obj]) es = h @ [foldl (copyEntry ts) obj es]"
  by (induction es arbitrary: obj) (simp_all add: copyIfAllowed_new)

lemma wf_object_copyEntry: "wf_object obj \<Longrightarrow> wf_object (copyEntry ts obj e)"
  by (simp add: copyEntry_def wf_object_js_assign)

lemma wf_object_foldl_copyEntry:
  "wf_object obj \<Longrightarrow> wf_object (foldl (copyEntry ts) obj es)"
  by (induction es arbitrary: obj) (simp_all add: wf_object_copyEntry)

lemma keys_foldl_copyEntry:
  "fst ` set (foldl (copyEntry ts) obj es) \<subseteq> fst ` set obj \<union> set ts"
proof (induction es arbitrary: obj)
  case Nil
  show ?case by simp
next
  case (Cons e es)
  have "fst ` set (copyEntry ts obj e) \<subseteq> fst ` set obj \<union> set ts"
    using keys_js_assign[of obj "fst e" "snd e"] by (auto simp: copyEntry_def)
  moreover have "fst ` set (foldl (copyEntry ts) (copyEntry ts obj e) es)
                 \<subseteq> fst ` set (copyEntry ts obj e) \<union> set ts"
    by (rule Cons.IH)
  ultimately have "fst ` set (foldl (copyEntry ts) (copyEntry ts obj e) es)
                   \<subseteq> fst ` set obj \<union> set ts"
    by blast
  then show ?case by simp
qed

lemma proto_foldl_copyEntry:
  "''__proto__'' \<notin> fst ` set obj \<Longrightarrow> ''__proto__'' \<notin> fst ` set (foldl (copyEntry ts) obj es)"
proof (induction es arbitrary: obj)
  case Nil
  then show ?case by simp
next
  case (Cons e es)
  have "''__proto__'' \<notin> fst ` set (copyEntry ts obj e)"
    using Cons.prems proto_js_assign[of obj "fst e" "snd e"] by (simp add: copyEntry_def)
  then show ?case using Cons.IH by simp
qed

lemma set_foldl_copyEntry: "set (foldl (copyEntry ts) obj es) \<subseteq> set obj \<union> set es"
proof (induction es arbitrary: obj)
  case Nil
  show ?case by simp
next
  case (Cons e es)
  have "set (copyEntry ts obj e) \<subseteq> insert e (set obj)"
    using set_js_assign[of obj "fst e" "snd e"] by (auto simp: copyEntry_def)
  moreover have "set (foldl (copyEntry ts) (copyEntry ts obj e) es)
                 \<subseteq> set (copyEntry ts obj e) \<union> set es"
    by (rule Cons.IH)
  ultimately show ?case by auto
qed

lemma filter_all_keys:
  "fst ` set obj \<subseteq> set ts \<Longrightarrow> filter (\<lambda>e. fst e \<in> set ts) obj = obj"
  by (induction obj) auto

text \<open>Copying the permitted entries of an object that was built this way rebuilds it.\<close>

lemma foldl_copyEntry_twice:
  "foldl (copyEntry ts) [] (foldl (copyEntry ts) [] es) = foldl (copyEntry ts) [] es"
proof -
  let ?F = "foldl (copyEntry ts) [] es"
  have wf: "wf_object ?F"
    by (simp add: wf_object_foldl_copyEntry wf_object_Nil)
  have keys: "fst ` set ?F \<subseteq> set ts"
    using keys_foldl_copyEntry[of ts "[]" es] by simp
  have proto: "''__proto__'' \<notin> fst ` set ?F"
    by (rule proto_foldl_copyEntry) simp
  have "foldl (copyEntry ts) [] ?F = filter (\<lambda>e. fst e \<in> set ts) ?F"
    using wf proto by (rule foldl_copyEntry_no_proto)
  also have "\<dots> = ?F" using keys by (rule filter_all_keys)
  finally show ?thesis .
qed

lemma foldl_copyEntry_none: "foldl (copyEntry []) obj es = obj"
  by (induction es) (simp_all add: copyEntry_def)

subsection \<open>The permission check and the filter, given the role they act on\<close>

lemma isToolAllowed_current:
  "currentRole role w = (Inr current, w) \<Longrightarrow>
   isToolAllowed toolName role w =
     (if \<not> truthy (roles_get (roles (w_config w)) (js_toString current)) then (Inr False, w)
      else if tools_of (roles_get (roles (w_config w)) (js_toString current)) = Str ''*''
      then (Inr True, w)
      else (case tools_of (roles_get (roles (w_config w)) (js_toString current)) of
              Arr ts \<Rightarrow> (Inr (toolName \<in> set ts), w)
            | _ \<Rightarrow> (Inl TypeError, w)))"
  by (simp add: isToolAllowed_def andThen_def Let_def)

lemma isToolAllowed_thrown:
  "currentRole role w = (Inl e, w) \<Longrightarrow> isToolAllowed toolName role w = (Inl e, w)"
  by (simp add: isToolAllowed_def andThen_def)

lemma filterTools_current:
  "currentRole role w = (Inr current, w) \<Longrightarrow> tools < length (w_store w) \<Longrightarrow>
   filterTools tools role w =
     (if \<not> truthy (roles_get (roles (w_config w)) (js_toString current))
      then (Inr (length (w_store w)), w\<lparr>w_store := w_store w @ [[]]\<rparr>)
      else if tools_of (roles_get (roles (w_config w)) (js_toString current)) = Str ''*''
      then (Inr tools, w)
      else (Inr (length (w_store w)),
            w\<lparr>w_store := w_store w @
               [foldl (copyEntry
                  (case tools_of (roles_get (roles (w_config w)) (js_toString current)) of
                     Arr ts \<Rightarrow> ts | _ \<Rightarrow> [])) [] (w_store w ! tools)]\<rparr>))"
  by (simp add: filterTools_def andThen_def Let_def new_object_def foldl_copyIfAllowed_new
      nth_append)

lemma filterTools_thrown:
  "currentRole role w = (Inl e, w) \<Longrightarrow> filterTools tools role w = (Inl e, w)"
  by (simp add: filterTools_def andThen_def)

lemma wf_demoTools: "wf_object demoTools"
  by (simp add: wf_object_def demoTools_def key_precedes_def is_array_index_def is_digit_def)

lemma currentRole_store:
  assumes "currentRole role w = (Inr current, w)"
  shows "currentRole role (w\<lparr>w_store := s\<rparr>) = (Inr current, w\<lparr>w_store := s\<rparr>)"
proof -
  have "fst (currentRole role (w\<lparr>w_store := s\<rparr>)) = fst (currentRole role w)"
    by (rule currentRole_cong) simp_all
  then have "fst (currentRole role (w\<lparr>w_store := s\<rparr>)) = Inr current"
    using assms by simp
  moreover have "snd (currentRole role (w\<lparr>w_store := s\<rparr>)) = w\<lparr>w_store := s\<rparr>"
    by (rule currentRole_world)
  ultimately show ?thesis by (metis prod.collapse)
qed

lemma filterTools_returns_current:
  assumes "filterTools tools role w = (Inr result, w')"
  shows "\<exists>current. currentRole role w = (Inr current, w)"
proof (cases "fst (currentRole role w)")
  case (Inl e)
  then have "currentRole role w = (Inl e, w)"
    using currentRole_world[of role w] by (metis prod.collapse)
  then show ?thesis using assms by (simp add: filterTools_thrown)
next
  case (Inr current)
  then have "currentRole role w = (Inr current, w)"
    using currentRole_world[of role w] by (metis prod.collapse)
  then show ?thesis by blast
qed

lemma filterTools_worldOf:
  "currentRole role (worldOf config env h) = (Inr current, worldOf config env h) \<Longrightarrow>
   tools < length h \<Longrightarrow>
   filterTools tools role (worldOf config env h) =
     (if \<not> truthy (roles_get (roles config) (js_toString current))
      then (Inr (length h), worldOf config env (h @ [[]]))
      else if tools_of (roles_get (roles config) (js_toString current)) = Str ''*''
      then (Inr tools, worldOf config env h)
      else (Inr (length h),
            worldOf config env (h @
               [foldl (copyEntry
                  (case tools_of (roles_get (roles config) (js_toString current)) of
                     Arr ts \<Rightarrow> ts | _ \<Rightarrow> [])) [] (h ! tools)])))"
  by (simp add: filterTools_def andThen_def Let_def new_object_def foldl_copyIfAllowed_new
      nth_append worldOf_def)

subsection \<open>Construction and runtime extension\<close>

text \<open>
  The role object of every instance is well formed, and both mutators keep their
  object well formed. Registering a role changes what is registered under its key
  only.
\<close>

lemma wf_object_spread: "wf_object obj \<Longrightarrow> wf_object (spread obj entries)"
  unfolding spread_def
  by (induction entries arbitrary: obj) (auto simp: wf_object_js_define)

lemma wf_roles_createMCPAuth: "wf_object (role_entries (roles (createMCPAuth userConfig)))"
  by (simp add: createMCPAuth_def wf_object_spread wf_object_Nil)

lemma registerRole_after:
  "w_config (after (registerRole key roleConfig) w) =
     (w_config w)\<lparr>roles := roles_assign (roles (w_config w)) key roleConfig\<rparr>"
  "w_env (after (registerRole key roleConfig) w) = w_env w"
  "w_store (after (registerRole key roleConfig) w) = w_store w"
  "fst (registerRole key roleConfig w) = Inr ()"
  by (simp_all add: registerRole_def after_def)

lemma mapApiKey_after:
  "w_config (after (mapApiKey prefix role) w) =
     (w_config w)\<lparr>apiKeyMap := js_assign (apiKeyMap (w_config w)) prefix role\<rparr>"
  "w_env (after (mapApiKey prefix role) w) = w_env w"
  "w_store (after (mapApiKey prefix role) w) = w_store w"
  "fst (mapApiKey prefix role w) = Inr ()"
  by (simp_all add: mapApiKey_def after_def)

lemma after_worldOf:
  "after (registerRole key roleConfig) (worldOf config env h) =
     worldOf (config\<lparr>roles := roles_assign (roles config) key roleConfig\<rparr>) env h"
  "after (mapApiKey prefix role) (worldOf config env h) =
     worldOf (config\<lparr>apiKeyMap := js_assign (apiKeyMap config) prefix role\<rparr>) env h"
  by (simp_all add: registerRole_def mapApiKey_def after_def worldOf_def)

lemma registered_roles_assign:
  "registered (roles_assign obj key roleConfig) k =
     (if k = key then Some roleConfig else registered obj k)"
proof (cases "key = ''__proto__'' \<and> key \<notin> fst ` set (role_entries obj)")
  case True
  then have "map_of (role_entries obj) ''__proto__'' = None"
    by (auto simp: map_of_eq_None_iff)
  then show ?thesis
    using True by (auto simp: registered_def roles_assign_def split: option.splits)
next
  case False
  then show ?thesis
    by (auto simp: registered_def roles_assign_def map_of_js_define split: option.splits)
qed

lemma wf_roles_assign:
  "wf_object (role_entries obj) \<Longrightarrow> wf_object (role_entries (roles_assign obj key roleConfig))"
  by (simp add: roles_assign_def wf_object_js_define)

lemma role_entries_assign_proto:
  "''__proto__'' \<notin> fst ` set (role_entries obj) \<Longrightarrow>
   role_entries (roles_assign obj ''__proto__'' roleConfig) = role_entries obj"
  by (simp add: roles_assign_def)

subsection \<open>The repository's tests, replayed on the model\<close>

text \<open>
  Each lemma is one test of the repository's test suite, stated about the model: the
  merge of custom roles, the permissions of \<open>admin\<close>, \<open>editor\<close> and \<open>viewer\<close>,
  filtering, the counts of allowed and blocked tools, the role summaries, the agent
  summary, and the two mutators.
\<close>

lemma isToolAllowed_given:
  "role \<noteq> [] \<Longrightarrow>
   isToolAllowed toolName (Some role) (worldOf config env h) =
     (if \<not> truthy (roles_get (roles config) role) then (Inr False, worldOf config env h)
      else if tools_of (roles_get (roles config) role) = Str ''*''
      then (Inr True, worldOf config env h)
      else (case tools_of (roles_get (roles config) role) of
              Arr ts \<Rightarrow> (Inr (toolName \<in> set ts), worldOf config env h)
            | _ \<Rightarrow> (Inl TypeError, worldOf config env h)))"
  by (simp add: isToolAllowed_current[OF currentRole_Some] worldOf_simps)

lemma test_merge_custom_roles:
  "map_sum id (map ri_key)
     (fst (getRoles (worldOf
        (createMCPAuth (noUserConfig\<lparr>uc_roles := Some [(''custom'', customRole)]\<rparr>)) env h)))
   = Inr [''admin'', ''editor'', ''author'', ''viewer'', ''custom'']"
  by (simp add: getRoles_def Let_def worldOf_simps createMCPAuth_def noUserConfig_def spread_def
      DEFAULT_ROLES_def js_define_eval)

lemma test_admin_all_tools:
  "fst (isToolAllowed ''create_user'' (Some ''admin'') (worldOf mcpAuth env h)) = Inr True"
  "fst (isToolAllowed ''delete_user'' (Some ''admin'') (worldOf mcpAuth env h)) = Inr True"
  "fst (isToolAllowed ''backup_create'' (Some ''admin'') (worldOf mcpAuth env h)) = Inr True"
  by (simp_all add: isToolAllowed_given roles_get_mcpAuth roleConfig_get_def adminRole_def)

lemma test_editor_limited:
  "fst (isToolAllowed ''list_entries'' (Some ''editor'') (worldOf mcpAuth env h)) = Inr True"
  "fst (isToolAllowed ''create_entry'' (Some ''editor'') (worldOf mcpAuth env h)) = Inr True"
  "fst (isToolAllowed ''create_user'' (Some ''editor'') (worldOf mcpAuth env h)) = Inr False"
  "fst (isToolAllowed ''backup_create'' (Some ''editor'') (worldOf mcpAuth env h)) = Inr False"
  by (simp_all add: isToolAllowed_given roles_get_mcpAuth roleConfig_get_def editorRole_def)

lemma test_viewer_read_only:
  "fst (isToolAllowed ''list_entries'' (Some ''viewer'') (worldOf mcpAuth env h)) = Inr True"
  "fst (isToolAllowed ''get_entry'' (Some ''viewer'') (worldOf mcpAuth env h)) = Inr True"
  "fst (isToolAllowed ''create_entry'' (Some ''viewer'') (worldOf mcpAuth env h)) = Inr False"
  "fst (isToolAllowed ''delete_entry'' (Some ''viewer'') (worldOf mcpAuth env h)) = Inr False"
  by (simp_all add: isToolAllowed_given roles_get_mcpAuth roleConfig_get_def viewerRole_def)

lemma test_filter_editor:
  "filterTools 0 (Some ''editor'') (worldOf mcpAuth env [testTools]) =
     (Inr 1, worldOf mcpAuth env
        [testTools, [(''list_entries'', ''list_entries''), (''search'', ''search'')]])"
  using filterTools_worldOf[OF currentRole_Some, of "''editor''" 0 "[testTools]" mcpAuth env]
  by (simp add: roles_get_mcpAuth roleConfig_get_def editorRole_def testTools_def
      copyEntry_def js_assign_def js_define_eval)

lemma test_filter_admin:
  "filterTools 0 (Some ''admin'') (worldOf mcpAuth env [testTools]) =
     (Inr 0, worldOf mcpAuth env [testTools])"
  "length testTools = 3"
  using filterTools_worldOf[OF currentRole_Some, of "''admin''" 0 "[testTools]" mcpAuth env]
  by (simp_all add: roles_get_mcpAuth roleConfig_get_def adminRole_def testTools_def)

lemma test_allowed_counts:
  "map_sum id (map_option length) (fst (getAllowedTools ''admin'' (worldOf mcpAuth env h))) =
     Inr (Some (length DEFAULT_KNOWN_TOOLS))"
  "map_sum id (map_option length) (fst (getAllowedTools ''editor'' (worldOf mcpAuth env h))) =
     Inr (Some 26)"
  "map_sum id (map_option length) (fst (getAllowedTools ''viewer'' (worldOf mcpAuth env h))) =
     Inr (Some 13)"
  "50 < length DEFAULT_KNOWN_TOOLS"
  by (simp_all add: getAllowedTools_def Let_def worldOf_simps roles_get_mcpAuth knownTools_mcpAuth
      roleConfig_get_def adminRole_def editorRole_def viewerRole_def DEFAULT_KNOWN_TOOLS_def)

lemma test_blocked:
  "fst (getBlockedTools ''admin'' (worldOf mcpAuth env h)) = Inr []"
  "map_sum id length (fst (getBlockedTools ''editor'' (worldOf mcpAuth env h))) = Inr 30"
  by (simp_all add: getBlockedTools_def Let_def worldOf_simps roles_get_mcpAuth roleConfig_get_def
      adminRole_def editorRole_def)

lemma test_getRoles:
  "map_sum id (map (\<lambda>info. (ri_key info, ri_accessLevel info, ri_toolCount info)))
     (fst (getRoles (worldOf mcpAuth env h))) =
     Inr [(''admin'', Full, 56), (''editor'', Limited, 26), (''author'', Limited, 15),
          (''viewer'', Limited, 13)]"
  by (simp add: getRoles_def Let_def worldOf_simps roles_mcpAuth DEFAULT_ROLES_def knownTools_mcpAuth
      DEFAULT_KNOWN_TOOLS_def adminRole_def editorRole_def authorRole_def viewerRole_def)

lemma test_getAgentInfo:
  "getAgentInfo (worldOf mcpAuth noEnv h) =
     (Inr \<lparr>ai_role = Str ''viewer'', ai_name = Str ''Viewer'',
           ai_description = Str ''Read-only access to content'',
           ai_allowedToolCount = 13, ai_blockedToolCount = 0\<rparr>, worldOf mcpAuth noEnv h)"
  by (simp add: getAgentInfo_def andThen_def getRoleFromEnv_worldOf envVars_mcpAuth getenv_simps
      defaultRole_mcpAuth roles_get_mcpAuth getAllowedTools_def Let_def getBlockedTools_def
      worldOf_simps roleConfig_get_def viewerRole_def)

lemma test_registerRole:
  "fst (isToolAllowed ''list_entries'' (Some ''tester'')
          (after (registerRole ''tester'' testerRole) (worldOf mcpAuth env h))) = Inr True"
  "fst (isToolAllowed ''create_user'' (Some ''tester'')
          (after (registerRole ''tester'' testerRole) (worldOf mcpAuth env h))) = Inr False"
  by (simp_all add: after_worldOf isToolAllowed_given roles_get_registered
      registered_roles_assign roleConfig_get_def testerRole_def)

lemma test_mapApiKey:
  "fst (getRoleFromApiKey (Str ''test_admin_12345'')
     (after (mapApiKey ''test_admin_'' ''admin'')
        (worldOf (createMCPAuth (noUserConfig\<lparr>uc_apiKeyMap := Some []\<rparr>)) env h))) =
   Inr (Str ''admin'')"
  by (simp add: after_worldOf getRoleFromApiKey_worldOf createMCPAuth_def noUserConfig_def
      js_assign_def js_define_eval apiKeyMap_get_def inherited_get_def
      objectPrototypeMethods_def startsWith_def)

subsection \<open>Keys that name inherited properties\<close>

text \<open>
  A key under which no role is registered, but which names a member of
  \<open>Object.prototype\<close>, is found by \<open>config.roles[key]\<close>, and the value found is not
  a role definition. The lemmas of this subsection evaluate the functions on such
  keys; the properties of the later subsections are stated for the other keys.
\<close>

lemma isToolAllowed_inherited_key_throws:
  "key \<noteq> [] \<Longrightarrow> registered (roles config) key = None \<Longrightarrow>
   truthy (roles_get (roles config) key) \<Longrightarrow>
   isToolAllowed toolName (Some key) (worldOf config env h) = (Inl TypeError, worldOf config env h)"
  by (simp add: isToolAllowed_given tools_of_unregistered)

lemma isToolAllowed_constructor_throws:
  "fst (isToolAllowed ''list_entries'' (Some ''constructor'') (worldOf mcpAuth env h)) =
     Inl TypeError"
  by (simp add: isToolAllowed_given roles_get_mcpAuth inherited_get_simps)

lemma getRoleFromEnv_inherited_role:
  "registered (roles mcpAuth) ''toString'' = None"
  "fst (getRoleFromEnv (worldOf mcpAuth (setenv noEnv ''AGENT_ROLE'' ''toString'') h)) =
     Inr (Str ''toString'')"
  by (simp_all add: registered_mcpAuth getRoleFromEnv_worldOf envVars_mcpAuth getenv_simps
      roles_get_mcpAuth inherited_get_simps)

lemma getRoleFromApiKey_inherited_prefix:
  "fst (getRoleFromApiKey (Str ''constructor'') (worldOf mcpAuth env h)) = Inr (Fun ''Object'')"
  "fst (getRoleFromApiKey (Str ''toLocaleString_and_more'') (worldOf mcpAuth env h)) =
     Inr (Fun ''toLocaleString'')"
  by (simp_all add: getRoleFromApiKey_worldOf apiKeyMap_mcpAuth apiKeyMap_get_def
      inherited_get_simps)

lemma authenticateAgent_inherited_role:
  "fst (authenticateAgent (worldOf mcpAuth (setenv noEnv ''AGENT_ROLE'' ''toString'') h)) =
     Inr \<lparr>ar_authenticated = True, ar_role = Some (Str ''toString''),
          ar_userId = Some ''env-role'', ar_error = None\<rparr>"
proof -
  let ?w = "worldOf mcpAuth (setenv noEnv ''AGENT_ROLE'' ''toString'') h"
  have "getRoleFromEnv ?w = (Inr (Str ''toString''), ?w)"
    by (simp add: getRoleFromEnv_worldOf envVars_mcpAuth getenv_simps roles_get_mcpAuth
        inherited_get_simps)
  then show ?thesis
    by (simp add: authenticateAgent_def andThen_def Let_def worldOf_simps envVars_mcpAuth
        getenv_simps roles_get_mcpAuth inherited_get_simps)
qed

lemma authenticateAgent_inherited_prefix:
  "fst (authenticateAgent (worldOf mcpAuth (setenv noEnv ''AGENT_API_KEY'' ''constructor'') h)) =
     Inr \<lparr>ar_authenticated = False, ar_role = None, ar_userId = None,
          ar_error = Some ''Unknown role: function Object() { [native code] }''\<rparr>"
proof -
  let ?w = "worldOf mcpAuth (setenv noEnv ''AGENT_API_KEY'' ''constructor'') h"
  have "getRoleFromEnv ?w = (Inr (Fun ''Object''), ?w)"
    by (simp add: getRoleFromEnv_worldOf getRoleFromApiKey_worldOf envVars_mcpAuth getenv_simps
        apiKeyMap_mcpAuth apiKeyMap_get_def inherited_get_simps)
  then show ?thesis
    by (simp add: authenticateAgent_def andThen_def Let_def worldOf_simps envVars_mcpAuth
        getenv_simps roles_get_mcpAuth inherited_get_def objectPrototypeMethods_def)
qed

lemma getAgentInfo_inherited_role_throws:
  "registered (roles mcpAuth) (defaultRole mcpAuth) = Some viewerRole"
  "fst (getAgentInfo (worldOf mcpAuth (setenv noEnv ''AGENT_ROLE'' ''constructor'') h)) =
     Inl TypeError"
proof -
  let ?w = "worldOf mcpAuth (setenv noEnv ''AGENT_ROLE'' ''constructor'') h"
  show "registered (roles mcpAuth) (defaultRole mcpAuth) = Some viewerRole"
    by (simp add: defaultRole_mcpAuth registered_mcpAuth)
  have "getRoleFromEnv ?w = (Inr (Str ''constructor''), ?w)"
    by (simp add: getRoleFromEnv_worldOf envVars_mcpAuth getenv_simps roles_get_mcpAuth
        inherited_get_simps)
  then show "fst (getAgentInfo ?w) = Inl TypeError"
    by (simp add: getAgentInfo_def andThen_def Let_def worldOf_simps getAllowedTools_def
        getBlockedTools_def roles_get_mcpAuth inherited_get_simps)
qed

text \<open>
  Assigning under the key \<open>__proto__\<close> creates no entry. \<open>mapApiKey\<close> with that
  prefix changes nothing; \<open>registerRole\<close> with that key makes the role definition
  the prototype of \<open>config.roles\<close>, so that it is found under \<open>__proto__\<close>, is not
  listed by \<open>getRoles\<close>, and lends its properties to the lookups of other keys; and
  \<open>filterTools\<close> does not copy an entry of that name.
\<close>

lemma mapApiKey_proto:
  "''__proto__'' \<notin> fst ` set (apiKeyMap config) \<Longrightarrow>
   after (mapApiKey ''__proto__'' role) (worldOf config env h) = worldOf config env h"
  by (simp add: after_worldOf js_assign_def)

lemma registerRole_proto:
  assumes "''__proto__'' \<notin> fst ` set (role_entries (roles config))"
  shows "role_entries (roles (w_config (after (registerRole ''__proto__'' roleConfig)
            (worldOf config env h)))) = role_entries (roles config)"
    and "roles_get (roles (w_config (after (registerRole ''__proto__'' roleConfig)
            (worldOf config env h)))) ''__proto__'' = RoleObj roleConfig"
    and "fst (getRoles (after (registerRole ''__proto__'' roleConfig) (worldOf config env h))) =
         fst (getRoles (worldOf config env h))"
    and "''name'' \<notin> fst ` set (role_entries (roles config)) \<Longrightarrow>
         roles_get (roles (w_config (after (registerRole ''__proto__'' roleConfig)
            (worldOf config env h)))) ''name'' = Str (rc_name roleConfig)"
proof -
  have none: "map_of (role_entries (roles config)) ''__proto__'' = None"
    using assms by (simp add: map_of_eq_None_iff)
  show "role_entries (roles (w_config (after (registerRole ''__proto__'' roleConfig)
            (worldOf config env h)))) = role_entries (roles config)"
    using assms by (simp add: after_worldOf worldOf_simps roles_assign_def)
  show "roles_get (roles (w_config (after (registerRole ''__proto__'' roleConfig)
            (worldOf config env h)))) ''__proto__'' = RoleObj roleConfig"
    using assms none by (simp add: after_worldOf worldOf_simps roles_assign_def roles_get_def)
  show "fst (getRoles (after (registerRole ''__proto__'' roleConfig) (worldOf config env h))) =
         fst (getRoles (worldOf config env h))"
    using assms
    by (auto simp: after_worldOf worldOf_simps roles_assign_def getRoles_def Let_def
        split: tool_set.splits)
  assume "''name'' \<notin> fst ` set (role_entries (roles config))"
  then have "map_of (role_entries (roles config)) ''name'' = None"
    by (simp add: map_of_eq_None_iff)
  then show "roles_get (roles (w_config (after (registerRole ''__proto__'' roleConfig)
            (worldOf config env h)))) ''name'' = Str (rc_name roleConfig)"
    using assms
    by (simp add: after_worldOf worldOf_simps roles_assign_def roles_get_def roleConfig_get_def)
qed

lemma filterTools_proto_entry:
  "fst (filterTools 0 (Some ''all'')
     (worldOf (mcpAuth\<lparr>roles := roles_assign (roles mcpAuth) ''all''
                 (testerRole\<lparr>rc_tools := ToolList [''__proto__'', ''search'']\<rparr>)\<rparr>) env
        [[(''__proto__'', 1::nat), (''search'', 2)]])) = Inr 1"
  "w_store (after (filterTools 0 (Some ''all''))
     (worldOf (mcpAuth\<lparr>roles := roles_assign (roles mcpAuth) ''all''
                 (testerRole\<lparr>rc_tools := ToolList [''__proto__'', ''search'']\<rparr>)\<rparr>) env
        [[(''__proto__'', 1::nat), (''search'', 2)]])) =
     [[(''__proto__'', 1), (''search'', 2)], [(''search'', 2)]]"
  using filterTools_worldOf[OF currentRole_Some, of "''all''" 0
      "[[(''__proto__'', 1::nat), (''search'', 2)]]"
      "mcpAuth\<lparr>roles := roles_assign (roles mcpAuth) ''all''
                 (testerRole\<lparr>rc_tools := ToolList [''__proto__'', ''search'']\<rparr>)\<rparr>" env]
  by (simp_all add: after_def worldOf_simps roles_get_registered registered_roles_assign
      roleConfig_get_def copyEntry_def js_assign_def js_define_eval)

subsection \<open>Which calls return\<close>

text \<open>
  Six functions return whatever they are given. \<open>getRoleFromEnv\<close>,
  \<open>authenticateAgent\<close> and \<open>filterTools\<close> return when the two variables of the
  environment hold strings or nothing. \<open>isToolAllowed\<close> and \<open>getAgentInfo\<close> can
  throw even then.
\<close>

lemma total_calls:
  "\<exists>r. getRoleFromApiKey (Str apiKey) w = (Inr r, w)"
  "\<exists>r. getAllowedTools role w = (Inr r, w)"
  "\<exists>r. getBlockedTools role w = (Inr r, w)"
  "\<exists>r. getRoles w = (Inr r, w)"
  "\<exists>r w'. registerRole key roleConfig w = (Inr r, w')"
  "\<exists>r w'. mapApiKey prefix mapped w = (Inr r, w')"
  by (simp_all add: getRoleFromApiKey_def getAllowedTools_def getBlockedTools_def getRoles_def
      registerRole_def mapApiKey_def Let_def split: option.splits js_value.splits)

lemma getRoleFromEnv_returns:
  assumes "\<And>name. w_env w name = Undefined \<or> (\<exists>s. w_env w name = Str s)"
  shows "\<exists>r. getRoleFromEnv w = (Inr r, w)"
proof -
  have "w_env w (apiKeyEnvVar (w_config w)) = Undefined \<or>
        (\<exists>s. w_env w (apiKeyEnvVar (w_config w)) = Str s)"
    using assms by blast
  then show ?thesis
    using total_calls(1)[of _ w] by (auto simp: getRoleFromEnv_def Let_def)
qed

lemma authenticateAgent_returns:
  assumes "\<And>name. w_env w name = Undefined \<or> (\<exists>s. w_env w name = Str s)"
  shows "\<exists>r. authenticateAgent w = (Inr r, w)"
proof -
  obtain role where "getRoleFromEnv w = (Inr role, w)"
    using getRoleFromEnv_returns[OF assms] by blast
  moreover have "w_env w (apiKeyEnvVar (w_config w)) = Undefined \<or>
        (\<exists>s. w_env w (apiKeyEnvVar (w_config w)) = Str s)"
    using assms by blast
  ultimately show ?thesis
    by (auto simp: authenticateAgent_def andThen_def Let_def)
qed

lemma filterTools_returns:
  assumes "\<And>name. w_env w name = Undefined \<or> (\<exists>s. w_env w name = Str s)"
    and "tools < length (w_store w)"
  shows "\<exists>r w'. filterTools tools role w = (Inr r, w')"
proof -
  obtain resolved where r: "getRoleFromEnv w = (Inr resolved, w)"
    using getRoleFromEnv_returns[OF assms(1)] by blast
  have "\<exists>current. currentRole role w = (Inr current, w)"
  proof (cases role)
    case None
    then show ?thesis using r by (simp add: currentRole_def)
  next
    case (Some given)
    then show ?thesis using r by (cases "given = []") (simp_all add: currentRole_def)
  qed
  then obtain current where "currentRole role w = (Inr current, w)" by blast
  then show ?thesis
    using filterTools_current[OF _ assms(2), of role current] by auto
qed

subsection \<open>Resolving the role from the environment\<close>

lemma getRoleFromApiKey_string:
  assumes "take 14 apiKey \<in> fst ` set (apiKeyMap (w_config w)) \<or> \<not> prototypeMember (take 14 apiKey)"
  shows "\<exists>role. getRoleFromApiKey (Str apiKey) w = (Inr (Str role), w)"
proof (cases "map_of (apiKeyMap (w_config w)) (take 14 apiKey)")
  case None
  then have "take 14 apiKey \<notin> fst ` set (apiKeyMap (w_config w))"
    by (simp add: map_of_eq_None_iff)
  then have "apiKeyMap_get (apiKeyMap (w_config w)) (take 14 apiKey) = Undefined"
    using assms None by (simp add: apiKeyMap_get_none)
  then show ?thesis
    by (simp add: getRoleFromApiKey_def Let_def split: option.splits)
next
  case (Some role)
  then have "apiKeyMap_get (apiKeyMap (w_config w)) (take 14 apiKey) = Str role"
    by (rule apiKeyMap_get_own)
  then show ?thesis
    by (simp add: getRoleFromApiKey_def Let_def split: option.splits)
qed

text \<open>
  Claim C5, amended. \<open>getRoleFromEnv\<close> returns the value of the role variable when
  that value is a non-empty string and names a registered role. Otherwise, the role
  variable being unset, empty, or a key that is neither registered nor the name of a
  property that \<open>config.roles\<close> inherits, it returns what \<open>getRoleFromApiKey\<close> derives
  from the API-key variable when that holds a non-empty string, and the configured
  default role when the API-key variable is unset or empty, whether or not a role
  with that key is registered. It returns a string, and does not throw, whenever the
  two variables hold strings or nothing and the first 14 characters of the API key
  are a mapped prefix or are not the name of a member of \<open>Object.prototype\<close>.
\<close>

theorem getRoleFromEnv_cases:
  "(env (roleEnvVar config) = Str direct \<and> direct \<noteq> [] \<and>
      registered (roles config) direct = Some rc \<longrightarrow>
      getRoleFromEnv (worldOf config env h) = (Inr (Str direct), worldOf config env h)) \<and>
   ((absent (env (roleEnvVar config)) \<or>
       env (roleEnvVar config) = Str direct \<and> registered (roles config) direct = None \<and>
       \<not> inherits (roles config) direct) \<and>
      env (apiKeyEnvVar config) = Str apiKey \<and> apiKey \<noteq> [] \<longrightarrow>
      getRoleFromEnv (worldOf config env h) =
        getRoleFromApiKey (Str apiKey) (worldOf config env h)) \<and>
   ((absent (env (roleEnvVar config)) \<or>
       env (roleEnvVar config) = Str direct \<and> registered (roles config) direct = None \<and>
       \<not> inherits (roles config) direct) \<and>
      absent (env (apiKeyEnvVar config)) \<longrightarrow>
      getRoleFromEnv (worldOf config env h) =
        (Inr (Str (defaultRole config)), worldOf config env h)) \<and>
   ((env (roleEnvVar config) = Undefined \<or> env (roleEnvVar config) = Str direct) \<and>
    (env (apiKeyEnvVar config) = Undefined \<or>
       env (apiKeyEnvVar config) = Str apiKey \<and>
       (take 14 apiKey \<in> fst ` set (apiKeyMap config) \<or> \<not> prototypeMember (take 14 apiKey))) \<longrightarrow>
      (\<exists>role. getRoleFromEnv (worldOf config env h) = (Inr (Str role), worldOf config env h)))"
proof (intro conjI impI)
  assume "env (roleEnvVar config) = Str direct \<and> direct \<noteq> [] \<and>
      registered (roles config) direct = Some rc"
  then show "getRoleFromEnv (worldOf config env h) = (Inr (Str direct), worldOf config env h)"
    by (simp add: getRoleFromEnv_worldOf roles_get_registered)
next
  assume a: "(absent (env (roleEnvVar config)) \<or>
       env (roleEnvVar config) = Str direct \<and> registered (roles config) direct = None \<and>
       \<not> inherits (roles config) direct) \<and>
      env (apiKeyEnvVar config) = Str apiKey \<and> apiKey \<noteq> []"
  then have "\<not> (truthy (env (roleEnvVar config)) \<and>
               truthy (roles_get (roles config) (js_toString (env (roleEnvVar config)))))"
    by (auto simp: absent_def roles_get_unregistered)
  then show "getRoleFromEnv (worldOf config env h) =
        getRoleFromApiKey (Str apiKey) (worldOf config env h)"
    using a by (auto simp: getRoleFromEnv_worldOf)
next
  assume a: "(absent (env (roleEnvVar config)) \<or>
       env (roleEnvVar config) = Str direct \<and> registered (roles config) direct = None \<and>
       \<not> inherits (roles config) direct) \<and>
      absent (env (apiKeyEnvVar config))"
  then have "\<not> (truthy (env (roleEnvVar config)) \<and>
               truthy (roles_get (roles config) (js_toString (env (roleEnvVar config)))))"
    by (auto simp: absent_def roles_get_unregistered)
  then show "getRoleFromEnv (worldOf config env h) =
        (Inr (Str (defaultRole config)), worldOf config env h)"
    using a by (auto simp: getRoleFromEnv_worldOf absent_not_truthy)
next
  assume a: "(env (roleEnvVar config) = Undefined \<or> env (roleEnvVar config) = Str direct) \<and>
    (env (apiKeyEnvVar config) = Undefined \<or>
       env (apiKeyEnvVar config) = Str apiKey \<and>
       (take 14 apiKey \<in> fst ` set (apiKeyMap config) \<or> \<not> prototypeMember (take 14 apiKey)))"
  let ?w = "worldOf config env h"
  show "\<exists>role. getRoleFromEnv ?w = (Inr (Str role), ?w)"
  proof (cases "truthy (env (roleEnvVar config)) \<and>
               truthy (roles_get (roles config) (js_toString (env (roleEnvVar config))))")
    case True
    then have "env (roleEnvVar config) = Str direct" using a by auto
    then show ?thesis using True by (simp add: getRoleFromEnv_worldOf)
  next
    case False
    show ?thesis
    proof (cases "truthy (env (apiKeyEnvVar config))")
      case True
      then have k: "env (apiKeyEnvVar config) = Str apiKey"
        "take 14 apiKey \<in> fst ` set (apiKeyMap (w_config ?w)) \<or> \<not> prototypeMember (take 14 apiKey)"
        using a by (auto simp: worldOf_simps)
      have "getRoleFromEnv ?w = getRoleFromApiKey (Str apiKey) ?w"
        using False True k(1) by (auto simp: getRoleFromEnv_worldOf)
      then show ?thesis using getRoleFromApiKey_string[OF k(2)] by simp
    next
      case noKey: False
      then show ?thesis using False by (auto simp: getRoleFromEnv_worldOf)
    qed
  qed
qed

text \<open>
  A registered role in the role variable; an API key and no role variable; an empty
  environment with the unregistered default role \<open>ghost\<close>; and an API key that no
  prefix matches.
\<close>

theorem getRoleFromEnv_cases_witness:
  "getRoleFromEnv (worldOf mcpAuth (setenv noEnv ''AGENT_ROLE'' ''editor'') noObjects) =
     (Inr (Str ''editor''), worldOf mcpAuth (setenv noEnv ''AGENT_ROLE'' ''editor'') noObjects) \<and>
   getRoleFromEnv (after (mapApiKey ''admin_'' ''admin'')
       (worldOf mcpAuth (setenv noEnv ''AGENT_API_KEY'' ''admin_abc123xyz'') noObjects)) =
     getRoleFromApiKey (Str ''admin_abc123xyz'') (after (mapApiKey ''admin_'' ''admin'')
       (worldOf mcpAuth (setenv noEnv ''AGENT_API_KEY'' ''admin_abc123xyz'') noObjects)) \<and>
   getRoleFromEnv (worldOf ghostDefault noEnv noObjects) =
     (Inr (Str ''ghost''), worldOf ghostDefault noEnv noObjects) \<and>
   registered (roles ghostDefault) ''ghost'' = None \<and>
   (\<exists>role. getRoleFromEnv (worldOf mcpAuth (setenv noEnv ''AGENT_API_KEY'' ''zzz'') noObjects) =
      (Inr (Str role), worldOf mcpAuth (setenv noEnv ''AGENT_API_KEY'' ''zzz'') noObjects))"
proof -
  have "getRoleFromEnv (worldOf mcpAuth (setenv noEnv ''AGENT_ROLE'' ''editor'') noObjects) =
     (Inr (Str ''editor''), worldOf mcpAuth (setenv noEnv ''AGENT_ROLE'' ''editor'') noObjects)"
    using getRoleFromEnv_cases[where config = mcpAuth and direct = "''editor''"
        and env = "setenv noEnv ''AGENT_ROLE'' ''editor''" and rc = editorRole and h = noObjects]
    by (simp add: envVars_mcpAuth getenv_simps registered_mcpAuth)
  moreover have "getRoleFromEnv (after (mapApiKey ''admin_'' ''admin'')
       (worldOf mcpAuth (setenv noEnv ''AGENT_API_KEY'' ''admin_abc123xyz'') noObjects)) =
     getRoleFromApiKey (Str ''admin_abc123xyz'') (after (mapApiKey ''admin_'' ''admin'')
       (worldOf mcpAuth (setenv noEnv ''AGENT_API_KEY'' ''admin_abc123xyz'') noObjects))"
    using getRoleFromEnv_cases[
        where config = "mcpAuth\<lparr>apiKeyMap := js_assign (apiKeyMap mcpAuth) ''admin_'' ''admin''\<rparr>"
        and apiKey = "''admin_abc123xyz''"
        and env = "setenv noEnv ''AGENT_API_KEY'' ''admin_abc123xyz''" and h = noObjects]
    by (simp add: after_worldOf envVars_mcpAuth getenv_simps absent_simps)
  moreover have "getRoleFromEnv (worldOf ghostDefault noEnv noObjects) =
     (Inr (Str ''ghost''), worldOf ghostDefault noEnv noObjects)"
    using getRoleFromEnv_cases[where config = ghostDefault and env = noEnv and h = noObjects]
    by (simp add: ghostDefault_fields getenv_simps absent_simps)
  moreover have "registered (roles ghostDefault) ''ghost'' = None"
    by (simp add: ghostDefault_fields registered_mcpAuth)
  moreover have "\<exists>role.
      getRoleFromEnv (worldOf mcpAuth (setenv noEnv ''AGENT_API_KEY'' ''zzz'') noObjects) =
      (Inr (Str role), worldOf mcpAuth (setenv noEnv ''AGENT_API_KEY'' ''zzz'') noObjects)"
    using getRoleFromEnv_cases[where config = mcpAuth and apiKey = "''zzz''"
        and env = "setenv noEnv ''AGENT_API_KEY'' ''zzz''" and h = noObjects]
    by (simp add: envVars_mcpAuth getenv_simps prototypeMember_iff objectPrototypeMethods_def)
  ultimately show ?thesis by simp
qed

text \<open>
  The claim as first stated fails for variables that are set to the empty string. With
  the empty prefix mapped to \<open>admin\<close>, derivation from the empty API key gives
  \<open>admin\<close>, but resolution skips the empty key and returns the default role. With a
  role registered under the empty key and the role variable set to the empty string,
  resolution does not return that value but the default role.
\<close>

theorem getRoleFromEnv_empty_value_counterexample:
  "setenv noEnv ''AGENT_API_KEY'' '''' (apiKeyEnvVar mcpAuth) = Str '''' \<and>
   fst (getRoleFromApiKey (Str '''') (after (mapApiKey '''' ''admin'')
          (worldOf mcpAuth (setenv noEnv ''AGENT_API_KEY'' '''') noObjects))) = Inr (Str ''admin'') \<and>
   fst (getRoleFromEnv (after (mapApiKey '''' ''admin'')
          (worldOf mcpAuth (setenv noEnv ''AGENT_API_KEY'' '''') noObjects))) = Inr (Str ''viewer'') \<and>
   setenv noEnv ''AGENT_ROLE'' '''' (roleEnvVar mcpAuth) = Str '''' \<and>
   registered (roles (w_config (after (registerRole '''' viewerRole)
          (worldOf mcpAuth (setenv noEnv ''AGENT_ROLE'' '''') noObjects)))) '''' = Some viewerRole \<and>
   fst (getRoleFromEnv (after (registerRole '''' viewerRole)
          (worldOf mcpAuth (setenv noEnv ''AGENT_ROLE'' '''') noObjects))) = Inr (Str ''viewer'')"
  by (simp add: getRoleFromEnv_worldOf getRoleFromApiKey_worldOf after_worldOf worldOf_simps
      envVars_mcpAuth getenv_simps apiKeyMap_mcpAuth defaultRole_mcpAuth js_assign_def
      js_define_eval apiKeyMap_get_def registered_roles_assign)

subsection \<open>Deriving the role from an API key\<close>

text \<open>
  Claim C4, amended. For every API key: \<open>getRoleFromApiKey\<close> returns the role mapped
  to the key's first 14 characters (the whole key when it is shorter) when that
  prefix is mapped to a non-empty role key. Otherwise, the prefix being mapped to
  the empty role key, or being neither mapped nor the name of a member of
  \<open>Object.prototype\<close>, it returns the role of the first mapping, in the order in
  which \<open>Object.entries\<close> enumerates \<open>apiKeyMap\<close>, whose prefix the API key starts
  with; and the default role when there is none. That order is the order of
  registration for prefixes that are not array indices: \<open>mapApiKey\<close> with a new
  prefix, other than \<open>__proto__\<close>, that is not an array index appends the mapping,
  with a mapped prefix it replaces the role and keeps the order, and it keeps a
  well-formed map well formed, so array indices come first, in ascending order. The
  first match wins, not the longest: after mapping \<open>ab\<close> and then \<open>abc\<close> in an empty
  map, the key \<open>abcdef\<close> gets the role of \<open>ab\<close>.
\<close>

theorem getRoleFromApiKey_cases:
  "(map_of (apiKeyMap config) (take 14 apiKey) = Some role \<and> role \<noteq> [] \<longrightarrow>
      getRoleFromApiKey (Str apiKey) (worldOf config env h) =
        (Inr (Str role), worldOf config env h)) \<and>
   ((map_of (apiKeyMap config) (take 14 apiKey) = Some [] \<or>
       take 14 apiKey \<notin> fst ` set (apiKeyMap config) \<and> \<not> prototypeMember (take 14 apiKey)) \<and>
      i < length (apiKeyMap config) \<and>
      (\<exists>rest. apiKey = fst (apiKeyMap config ! i) @ rest) \<and>
      (\<forall>j < i. \<nexists>rest. apiKey = fst (apiKeyMap config ! j) @ rest) \<longrightarrow>
      getRoleFromApiKey (Str apiKey) (worldOf config env h) =
        (Inr (Str (snd (apiKeyMap config ! i))), worldOf config env h)) \<and>
   ((map_of (apiKeyMap config) (take 14 apiKey) = Some [] \<or>
       take 14 apiKey \<notin> fst ` set (apiKeyMap config) \<and> \<not> prototypeMember (take 14 apiKey)) \<and>
      (\<forall>j < length (apiKeyMap config). \<nexists>rest. apiKey = fst (apiKeyMap config ! j) @ rest) \<longrightarrow>
      getRoleFromApiKey (Str apiKey) (worldOf config env h) =
        (Inr (Str (defaultRole config)), worldOf config env h)) \<and>
   (length apiKey \<le> 14 \<longrightarrow> take 14 apiKey = apiKey) \<and>
   (prefix \<notin> fst ` set (apiKeyMap config) \<and> prefix \<noteq> ''__proto__'' \<and>
      \<not> is_array_index prefix \<longrightarrow>
      apiKeyMap (w_config (after (mapApiKey prefix mapped) (worldOf config env h))) =
        apiKeyMap config @ [(prefix, mapped)]) \<and>
   (prefix \<in> fst ` set (apiKeyMap config) \<longrightarrow>
      map fst (apiKeyMap (w_config (after (mapApiKey prefix mapped) (worldOf config env h)))) =
        map fst (apiKeyMap config) \<and>
      map_of (apiKeyMap (w_config (after (mapApiKey prefix mapped) (worldOf config env h))))
        = (map_of (apiKeyMap config))(prefix \<mapsto> mapped)) \<and>
   (wf_object (apiKeyMap config) \<longrightarrow>
      wf_object (apiKeyMap (w_config (after (mapApiKey prefix mapped) (worldOf config env h))))) \<and>
   getRoleFromApiKey (Str ''abcdef'')
     (after (mapApiKey ''abc'' roleY) (after (mapApiKey ''ab'' roleX)
        (worldOf (config\<lparr>apiKeyMap := []\<rparr>) env h))) =
     (Inr (Str roleX), after (mapApiKey ''abc'' roleY) (after (mapApiKey ''ab'' roleX)
        (worldOf (config\<lparr>apiKeyMap := []\<rparr>) env h)))"
proof (intro conjI impI)
  assume "map_of (apiKeyMap config) (take 14 apiKey) = Some role \<and> role \<noteq> []"
  then show "getRoleFromApiKey (Str apiKey) (worldOf config env h) =
        (Inr (Str role), worldOf config env h)"
    by (simp add: getRoleFromApiKey_worldOf apiKeyMap_get_own)
next
  assume a: "(map_of (apiKeyMap config) (take 14 apiKey) = Some [] \<or>
       take 14 apiKey \<notin> fst ` set (apiKeyMap config) \<and> \<not> prototypeMember (take 14 apiKey)) \<and>
      i < length (apiKeyMap config) \<and>
      (\<exists>rest. apiKey = fst (apiKeyMap config ! i) @ rest) \<and>
      (\<forall>j < i. \<nexists>rest. apiKey = fst (apiKeyMap config ! j) @ rest)"
  then have "firstPrefixMatch apiKey (apiKeyMap config) = Some (snd (apiKeyMap config ! i))"
    by (intro firstPrefixMatch_first) (simp_all add: startsWith_iff)
  moreover have "\<not> truthy (apiKeyMap_get (apiKeyMap config) (take 14 apiKey))"
    using a by (auto simp: apiKeyMap_get_own apiKeyMap_get_none map_of_eq_None_iff)
  ultimately show "getRoleFromApiKey (Str apiKey) (worldOf config env h) =
        (Inr (Str (snd (apiKeyMap config ! i))), worldOf config env h)"
    by (simp add: getRoleFromApiKey_worldOf)
next
  assume a: "(map_of (apiKeyMap config) (take 14 apiKey) = Some [] \<or>
       take 14 apiKey \<notin> fst ` set (apiKeyMap config) \<and> \<not> prototypeMember (take 14 apiKey)) \<and>
      (\<forall>j < length (apiKeyMap config). \<nexists>rest. apiKey = fst (apiKeyMap config ! j) @ rest)"
  then have "firstPrefixMatch apiKey (apiKeyMap config) = None"
    by (simp add: firstPrefixMatch_None startsWith_iff)
  moreover have "\<not> truthy (apiKeyMap_get (apiKeyMap config) (take 14 apiKey))"
    using a by (auto simp: apiKeyMap_get_own apiKeyMap_get_none map_of_eq_None_iff)
  ultimately show "getRoleFromApiKey (Str apiKey) (worldOf config env h) =
        (Inr (Str (defaultRole config)), worldOf config env h)"
    by (simp add: getRoleFromApiKey_worldOf)
next
  assume "length apiKey \<le> 14"
  then show "take 14 apiKey = apiKey" by simp
next
  assume "prefix \<notin> fst ` set (apiKeyMap config) \<and> prefix \<noteq> ''__proto__'' \<and>
      \<not> is_array_index prefix"
  then show "apiKeyMap (w_config (after (mapApiKey prefix mapped) (worldOf config env h))) =
        apiKeyMap config @ [(prefix, mapped)]"
    by (simp add: after_worldOf worldOf_simps js_assign_def js_define_def js_insert_not_index)
next
  assume a: "prefix \<in> fst ` set (apiKeyMap config)"
  then show "map fst (apiKeyMap (w_config (after (mapApiKey prefix mapped)
                 (worldOf config env h)))) = map fst (apiKeyMap config)"
    by (auto simp: after_worldOf worldOf_simps js_assign_def js_define_def)
  have "\<And>k. map_of (js_assign (apiKeyMap config) prefix mapped) k =
            ((map_of (apiKeyMap config))(prefix \<mapsto> mapped)) k"
    using a by (simp add: map_of_js_assign)
  then have "map_of (js_assign (apiKeyMap config) prefix mapped) =
             (map_of (apiKeyMap config))(prefix \<mapsto> mapped)"
    by (rule ext)
  then show "map_of (apiKeyMap (w_config (after (mapApiKey prefix mapped) (worldOf config env h))))
        = (map_of (apiKeyMap config))(prefix \<mapsto> mapped)"
    by (simp add: after_worldOf worldOf_simps)
next
  assume "wf_object (apiKeyMap config)"
  then show "wf_object (apiKeyMap (w_config (after (mapApiKey prefix mapped)
                 (worldOf config env h))))"
    by (simp add: after_worldOf worldOf_simps wf_object_js_assign)
next
  show "getRoleFromApiKey (Str ''abcdef'')
     (after (mapApiKey ''abc'' roleY) (after (mapApiKey ''ab'' roleX)
        (worldOf (config\<lparr>apiKeyMap := []\<rparr>) env h))) =
     (Inr (Str roleX), after (mapApiKey ''abc'' roleY) (after (mapApiKey ''ab'' roleX)
        (worldOf (config\<lparr>apiKeyMap := []\<rparr>) env h)))"
    by (simp add: getRoleFromApiKey_worldOf after_worldOf js_assign_def js_define_eval
        apiKeyMap_get_def inherited_get_def objectPrototypeMethods_def startsWith_def)
qed

text \<open>
  A mapped 14-character prefix; two mappings that both match, the first one winning;
  no mapping at all; a key shorter than 14 characters; and mapping a new prefix, a
  mapped prefix, and an array index.
\<close>

theorem getRoleFromApiKey_cases_witness:
  "getRoleFromApiKey (Str ''test_admin_12345'')
     (worldOf (mcpAuth\<lparr>apiKeyMap := [(''test_admin_123'', ''admin'')]\<rparr>) noEnv noObjects) =
     (Inr (Str ''admin''),
      worldOf (mcpAuth\<lparr>apiKeyMap := [(''test_admin_123'', ''admin'')]\<rparr>) noEnv noObjects) \<and>
   getRoleFromApiKey (Str ''abcdef'')
     (worldOf (mcpAuth\<lparr>apiKeyMap := [(''ab'', ''roleX''), (''abc'', ''roleY'')]\<rparr>) noEnv noObjects) =
     (Inr (Str ''roleX''),
      worldOf (mcpAuth\<lparr>apiKeyMap := [(''ab'', ''roleX''), (''abc'', ''roleY'')]\<rparr>) noEnv noObjects) \<and>
   getRoleFromApiKey (Str ''zzz'') (worldOf mcpAuth noEnv noObjects) =
     (Inr (Str ''viewer''), worldOf mcpAuth noEnv noObjects) \<and>
   take 14 ''admin_abc'' = ''admin_abc'' \<and>
   apiKeyMap (w_config (after (mapApiKey ''abc'' ''roleY'')
     (worldOf (mcpAuth\<lparr>apiKeyMap := [(''ab'', ''roleX'')]\<rparr>) noEnv noObjects))) =
     [(''ab'', ''roleX''), (''abc'', ''roleY'')] \<and>
   map fst (apiKeyMap (w_config (after (mapApiKey ''ab'' ''roleZ'')
     (worldOf (mcpAuth\<lparr>apiKeyMap := [(''ab'', ''roleX''), (''abc'', ''roleY'')]\<rparr>) noEnv noObjects)))) =
     [''ab'', ''abc''] \<and>
   wf_object (apiKeyMap (w_config (after (mapApiKey ''1'' ''roleY'')
     (worldOf (mcpAuth\<lparr>apiKeyMap := [(''12'', ''roleX'')]\<rparr>) noEnv noObjects))))"
proof -
  have "getRoleFromApiKey (Str ''test_admin_12345'')
     (worldOf (mcpAuth\<lparr>apiKeyMap := [(''test_admin_123'', ''admin'')]\<rparr>) noEnv noObjects) =
     (Inr (Str ''admin''),
      worldOf (mcpAuth\<lparr>apiKeyMap := [(''test_admin_123'', ''admin'')]\<rparr>) noEnv noObjects)"
    using getRoleFromApiKey_cases[
        where config = "mcpAuth\<lparr>apiKeyMap := [(''test_admin_123'', ''admin'')]\<rparr>"
        and apiKey = "''test_admin_12345''" and role = "''admin''" and env = noEnv
        and h = noObjects]
    by simp
  moreover
  have "getRoleFromApiKey (Str ''abcdef'')
     (worldOf (mcpAuth\<lparr>apiKeyMap := [(''ab'', ''roleX''), (''abc'', ''roleY'')]\<rparr>) noEnv noObjects) =
     (Inr (Str ''roleX''),
      worldOf (mcpAuth\<lparr>apiKeyMap := [(''ab'', ''roleX''), (''abc'', ''roleY'')]\<rparr>) noEnv noObjects)"
    using getRoleFromApiKey_cases[
        where config = "mcpAuth\<lparr>apiKeyMap := [(''ab'', ''roleX''), (''abc'', ''roleY'')]\<rparr>"
        and apiKey = "''abcdef''" and i = 0 and env = noEnv and h = noObjects]
    by (simp add: prototypeMember_iff objectPrototypeMethods_def)
  moreover have "getRoleFromApiKey (Str ''zzz'') (worldOf mcpAuth noEnv noObjects) =
     (Inr (Str ''viewer''), worldOf mcpAuth noEnv noObjects)"
    using getRoleFromApiKey_cases[where config = mcpAuth and apiKey = "''zzz''" and env = noEnv
        and h = noObjects]
    by (simp add: apiKeyMap_mcpAuth defaultRole_mcpAuth prototypeMember_iff
        objectPrototypeMethods_def)
  moreover have "take 14 ''admin_abc'' = ''admin_abc''"
    using getRoleFromApiKey_cases[where apiKey = "''admin_abc''"] by simp
  moreover have "apiKeyMap (w_config (after (mapApiKey ''abc'' ''roleY'')
     (worldOf (mcpAuth\<lparr>apiKeyMap := [(''ab'', ''roleX'')]\<rparr>) noEnv noObjects))) =
     [(''ab'', ''roleX''), (''abc'', ''roleY'')]"
    using getRoleFromApiKey_cases[
        where config = "mcpAuth\<lparr>apiKeyMap := [(''ab'', ''roleX'')]\<rparr>"
        and prefix = "''abc''" and mapped = "''roleY''" and env = noEnv and h = noObjects]
    by (simp add: is_array_index_def is_digit_def)
  moreover have "map fst (apiKeyMap (w_config (after (mapApiKey ''ab'' ''roleZ'')
     (worldOf (mcpAuth\<lparr>apiKeyMap := [(''ab'', ''roleX''), (''abc'', ''roleY'')]\<rparr>) noEnv noObjects)))) =
     [''ab'', ''abc'']"
    using getRoleFromApiKey_cases[
        where config = "mcpAuth\<lparr>apiKeyMap := [(''ab'', ''roleX''), (''abc'', ''roleY'')]\<rparr>"
        and prefix = "''ab''" and mapped = "''roleZ''" and env = noEnv and h = noObjects]
    by simp
  moreover have "wf_object (apiKeyMap (w_config (after (mapApiKey ''1'' ''roleY'')
     (worldOf (mcpAuth\<lparr>apiKeyMap := [(''12'', ''roleX'')]\<rparr>) noEnv noObjects))))"
    using getRoleFromApiKey_cases[
        where config = "mcpAuth\<lparr>apiKeyMap := [(''12'', ''roleX'')]\<rparr>"
        and prefix = "''1''" and mapped = "''roleY''" and env = noEnv and h = noObjects]
    by (simp add: wf_object_def)
  ultimately show ?thesis by simp
qed

text \<open>
  The claim as first stated fails when the exact prefix is mapped to the empty role
  key: the mapping for \<open>abc\<close> is passed over and the earlier mapping \<open>ab\<close> wins.
  And the order of the scan is the order of enumeration, which is not always the
  order of registration: the prefix \<open>1\<close>, although mapped after \<open>12\<close>, is
  enumerated before it, both being array indices.
\<close>

theorem getRoleFromApiKey_empty_role_counterexample:
  "map_of (apiKeyMap (w_config (after (mapApiKey ''abc'' '''') (after (mapApiKey ''ab'' ''roleX'')
       (worldOf mcpAuth noEnv noObjects))))) (take 14 ''abc'') = Some '''' \<and>
   fst (getRoleFromApiKey (Str ''abc'') (after (mapApiKey ''abc'' '''')
       (after (mapApiKey ''ab'' ''roleX'') (worldOf mcpAuth noEnv noObjects)))) =
     Inr (Str ''roleX'') \<and>
   apiKeyMap (w_config (after (mapApiKey ''1'' ''roleY'') (after (mapApiKey ''12'' ''roleX'')
       (worldOf mcpAuth noEnv noObjects)))) = [(''1'', ''roleY''), (''12'', ''roleX'')] \<and>
   fst (getRoleFromApiKey (Str ''123'') (after (mapApiKey ''1'' ''roleY'')
       (after (mapApiKey ''12'' ''roleX'') (worldOf mcpAuth noEnv noObjects)))) =
     Inr (Str ''roleY'')"
  by (simp add: getRoleFromApiKey_worldOf after_worldOf worldOf_simps apiKeyMap_mcpAuth
      js_assign_def js_define_eval apiKeyMap_get_def startsWith_def dec_value_def
      inherited_get_def objectPrototypeMethods_def)

subsection \<open>Authentication\<close>

lemma authenticateAgent_resolved:
  "getRoleFromEnv (worldOf config env h) = (Inr role, worldOf config env h) \<Longrightarrow>
   authenticateAgent (worldOf config env h) =
     (if \<not> truthy (roles_get (roles config) (js_toString role))
      then (Inr \<lparr>ar_authenticated = False, ar_role = None, ar_userId = None,
                 ar_error = Some (''Unknown role: '' @ js_toString role)\<rparr>,
            worldOf config env h)
      else if truthy (env (apiKeyEnvVar config))
      then (case env (apiKeyEnvVar config) of
              Str key \<Rightarrow>
                (Inr \<lparr>ar_authenticated = True, ar_role = Some role,
                      ar_userId = Some (''api-key:'' @ take 14 key), ar_error = None\<rparr>,
                 worldOf config env h)
            | _ \<Rightarrow> (Inl TypeError, worldOf config env h))
      else (Inr \<lparr>ar_authenticated = True, ar_role = Some role,
                 ar_userId = Some ''env-role'', ar_error = None\<rparr>, worldOf config env h))"
  by (simp add: authenticateAgent_def andThen_def Let_def worldOf_simps)

text \<open>
  Claim C2, amended. Let role resolution yield a role key. \<open>authenticateAgent\<close>
  reports \<open>authenticated = false\<close>, with role and user id null and the error
  \<open>Unknown role: \<close> followed by the role key, when the key is not registered and is
  not the name of a property that \<open>config.roles\<close> inherits. When the key is
  registered it reports \<open>authenticated = true\<close> with the resolved role and no error,
  and the user id is \<open>api-key:\<close> followed by the first 14 characters of the API key
  whenever the API-key variable holds a non-empty string (also when the role came
  from the role variable), and \<open>env-role\<close> when that variable is unset or empty. So
  for a key that names no inherited property, and an API-key variable that holds a
  string or nothing, the report is \<open>authenticated = false\<close> exactly when the key is
  not registered.
\<close>

theorem authenticateAgent_cases:
  assumes "getRoleFromEnv (worldOf config env h) = (Inr (Str role), worldOf config env h)"
  shows
  "(registered (roles config) role = None \<and> \<not> inherits (roles config) role \<longrightarrow>
      authenticateAgent (worldOf config env h) =
        (Inr \<lparr>ar_authenticated = False, ar_role = None, ar_userId = None,
              ar_error = Some (''Unknown role: '' @ role)\<rparr>, worldOf config env h)) \<and>
   (registered (roles config) role = Some rc \<and>
      env (apiKeyEnvVar config) = Str apiKey \<and> apiKey \<noteq> [] \<longrightarrow>
      authenticateAgent (worldOf config env h) =
        (Inr \<lparr>ar_authenticated = True, ar_role = Some (Str role),
              ar_userId = Some (''api-key:'' @ take 14 apiKey), ar_error = None\<rparr>,
         worldOf config env h)) \<and>
   (registered (roles config) role = Some rc \<and> absent (env (apiKeyEnvVar config)) \<longrightarrow>
      authenticateAgent (worldOf config env h) =
        (Inr \<lparr>ar_authenticated = True, ar_role = Some (Str role),
              ar_userId = Some ''env-role'', ar_error = None\<rparr>, worldOf config env h)) \<and>
   (\<not> inherits (roles config) role \<and>
      (env (apiKeyEnvVar config) = Undefined \<or> env (apiKeyEnvVar config) = Str apiKey) \<longrightarrow>
      (\<exists>auth. authenticateAgent (worldOf config env h) = (Inr auth, worldOf config env h) \<and>
         (ar_authenticated auth \<longleftrightarrow> registered (roles config) role \<noteq> None)))"
proof (intro conjI impI)
  assume "registered (roles config) role = None \<and> \<not> inherits (roles config) role"
  then show "authenticateAgent (worldOf config env h) =
        (Inr \<lparr>ar_authenticated = False, ar_role = None, ar_userId = None,
              ar_error = Some (''Unknown role: '' @ role)\<rparr>, worldOf config env h)"
    by (simp add: authenticateAgent_resolved[OF assms] roles_get_unregistered)
next
  assume "registered (roles config) role = Some rc \<and>
      env (apiKeyEnvVar config) = Str apiKey \<and> apiKey \<noteq> []"
  then show "authenticateAgent (worldOf config env h) =
        (Inr \<lparr>ar_authenticated = True, ar_role = Some (Str role),
              ar_userId = Some (''api-key:'' @ take 14 apiKey), ar_error = None\<rparr>,
         worldOf config env h)"
    by (simp add: authenticateAgent_resolved[OF assms] roles_get_registered)
next
  assume "registered (roles config) role = Some rc \<and> absent (env (apiKeyEnvVar config))"
  then show "authenticateAgent (worldOf config env h) =
        (Inr \<lparr>ar_authenticated = True, ar_role = Some (Str role),
              ar_userId = Some ''env-role'', ar_error = None\<rparr>, worldOf config env h)"
    by (simp add: authenticateAgent_resolved[OF assms] roles_get_registered absent_not_truthy)
next
  assume a: "\<not> inherits (roles config) role \<and>
      (env (apiKeyEnvVar config) = Undefined \<or> env (apiKeyEnvVar config) = Str apiKey)"
  show "\<exists>auth. authenticateAgent (worldOf config env h) = (Inr auth, worldOf config env h) \<and>
         (ar_authenticated auth \<longleftrightarrow> registered (roles config) role \<noteq> None)"
  proof (cases "registered (roles config) role")
    case None
    then show ?thesis
      using a by (simp add: authenticateAgent_resolved[OF assms] roles_get_unregistered)
  next
    case (Some rc')
    then show ?thesis
      using a by (auto simp: authenticateAgent_resolved[OF assms] roles_get_registered)
  qed
qed

text \<open>
  An unregistered default role; a role derived from an API key; a role taken from the
  role variable.
\<close>

theorem authenticateAgent_cases_witness:
  "authenticateAgent (worldOf ghostDefault noEnv noObjects) =
     (Inr \<lparr>ar_authenticated = False, ar_role = None, ar_userId = None,
           ar_error = Some ''Unknown role: ghost''\<rparr>, worldOf ghostDefault noEnv noObjects) \<and>
   authenticateAgent (worldOf (mcpAuth\<lparr>apiKeyMap := [(''admin_'', ''admin'')]\<rparr>)
       (setenv noEnv ''AGENT_API_KEY'' ''admin_abc123xyz_long'') noObjects) =
     (Inr \<lparr>ar_authenticated = True, ar_role = Some (Str ''admin''),
           ar_userId = Some ''api-key:admin_abc123xy'', ar_error = None\<rparr>,
      worldOf (mcpAuth\<lparr>apiKeyMap := [(''admin_'', ''admin'')]\<rparr>)
       (setenv noEnv ''AGENT_API_KEY'' ''admin_abc123xyz_long'') noObjects) \<and>
   authenticateAgent (worldOf mcpAuth (setenv noEnv ''AGENT_ROLE'' ''editor'') noObjects) =
     (Inr \<lparr>ar_authenticated = True, ar_role = Some (Str ''editor''),
           ar_userId = Some ''env-role'', ar_error = None\<rparr>,
      worldOf mcpAuth (setenv noEnv ''AGENT_ROLE'' ''editor'') noObjects)"
proof -
  have ghost: "getRoleFromEnv (worldOf ghostDefault noEnv noObjects) =
       (Inr (Str ''ghost''), worldOf ghostDefault noEnv noObjects)"
    by (simp add: getRoleFromEnv_worldOf ghostDefault_fields getenv_simps)
  have "authenticateAgent (worldOf ghostDefault noEnv noObjects) =
     (Inr \<lparr>ar_authenticated = False, ar_role = None, ar_userId = None,
           ar_error = Some ''Unknown role: ghost''\<rparr>, worldOf ghostDefault noEnv noObjects)"
    using authenticateAgent_cases[OF ghost]
    by (simp add: ghostDefault_fields registered_mcpAuth inherits_mcpAuth prototypeMember_iff
        objectPrototypeMethods_def)
  moreover
  have admin: "getRoleFromEnv (worldOf (mcpAuth\<lparr>apiKeyMap := [(''admin_'', ''admin'')]\<rparr>)
       (setenv noEnv ''AGENT_API_KEY'' ''admin_abc123xyz_long'') noObjects) =
     (Inr (Str ''admin''), worldOf (mcpAuth\<lparr>apiKeyMap := [(''admin_'', ''admin'')]\<rparr>)
       (setenv noEnv ''AGENT_API_KEY'' ''admin_abc123xyz_long'') noObjects)"
    by (simp add: getRoleFromEnv_worldOf getRoleFromApiKey_worldOf envVars_mcpAuth getenv_simps
        apiKeyMap_get_def inherited_get_def objectPrototypeMethods_def startsWith_def)
  have "authenticateAgent (worldOf (mcpAuth\<lparr>apiKeyMap := [(''admin_'', ''admin'')]\<rparr>)
       (setenv noEnv ''AGENT_API_KEY'' ''admin_abc123xyz_long'') noObjects) =
     (Inr \<lparr>ar_authenticated = True, ar_role = Some (Str ''admin''),
           ar_userId = Some ''api-key:admin_abc123xy'', ar_error = None\<rparr>,
      worldOf (mcpAuth\<lparr>apiKeyMap := [(''admin_'', ''admin'')]\<rparr>)
       (setenv noEnv ''AGENT_API_KEY'' ''admin_abc123xyz_long'') noObjects)"
    using authenticateAgent_cases[OF admin, where rc = adminRole
        and apiKey = "''admin_abc123xyz_long''"]
    by (simp add: envVars_mcpAuth getenv_simps registered_mcpAuth)
  moreover
  have editor: "getRoleFromEnv (worldOf mcpAuth (setenv noEnv ''AGENT_ROLE'' ''editor'') noObjects) =
     (Inr (Str ''editor''), worldOf mcpAuth (setenv noEnv ''AGENT_ROLE'' ''editor'') noObjects)"
    by (simp add: getRoleFromEnv_worldOf envVars_mcpAuth getenv_simps roles_get_mcpAuth)
  have "authenticateAgent (worldOf mcpAuth (setenv noEnv ''AGENT_ROLE'' ''editor'') noObjects) =
     (Inr \<lparr>ar_authenticated = True, ar_role = Some (Str ''editor''),
           ar_userId = Some ''env-role'', ar_error = None\<rparr>,
      worldOf mcpAuth (setenv noEnv ''AGENT_ROLE'' ''editor'') noObjects)"
    using authenticateAgent_cases[OF editor, where rc = editorRole]
    by (simp add: envVars_mcpAuth getenv_simps registered_mcpAuth absent_simps)
  ultimately show ?thesis by simp
qed

text \<open>
  The claim as first stated fails when both variables are set: the role \<open>admin\<close>
  comes from the role variable (the API key \<open>k\<close> alone would give \<open>viewer\<close>),
  yet the user id is derived from the API key.
\<close>

theorem authenticateAgent_userId_counterexample:
  "fst (getRoleFromEnv (worldOf mcpAuth
     (setenv (setenv noEnv ''AGENT_ROLE'' ''admin'') ''AGENT_API_KEY'' ''k'') noObjects))
     = Inr (Str ''admin'') \<and>
   fst (getRoleFromApiKey (Str ''k'') (worldOf mcpAuth
     (setenv (setenv noEnv ''AGENT_ROLE'' ''admin'') ''AGENT_API_KEY'' ''k'') noObjects))
     = Inr (Str ''viewer'') \<and>
   fst (authenticateAgent (worldOf mcpAuth
     (setenv (setenv noEnv ''AGENT_ROLE'' ''admin'') ''AGENT_API_KEY'' ''k'') noObjects))
     = Inr \<lparr>ar_authenticated = True, ar_role = Some (Str ''admin''),
            ar_userId = Some ''api-key:k'', ar_error = None\<rparr>"
proof -
  let ?w = "worldOf mcpAuth
     (setenv (setenv noEnv ''AGENT_ROLE'' ''admin'') ''AGENT_API_KEY'' ''k'') noObjects"
  have r: "getRoleFromEnv ?w = (Inr (Str ''admin''), ?w)"
    by (simp add: getRoleFromEnv_worldOf envVars_mcpAuth getenv_simps roles_get_mcpAuth)
  have "fst (getRoleFromApiKey (Str ''k'') ?w) = Inr (Str ''viewer'')"
    by (simp add: getRoleFromApiKey_worldOf apiKeyMap_mcpAuth defaultRole_mcpAuth
        apiKeyMap_get_def inherited_get_def objectPrototypeMethods_def)
  moreover have "fst (authenticateAgent ?w) =
      Inr \<lparr>ar_authenticated = True, ar_role = Some (Str ''admin''),
            ar_userId = Some ''api-key:k'', ar_error = None\<rparr>"
    by (simp add: authenticateAgent_resolved[OF r] envVars_mcpAuth getenv_simps
        roles_get_mcpAuth)
  ultimately show ?thesis using r by simp
qed

subsection \<open>Allowed tools of a role\<close>

text \<open>
  For every role key that is not the name of a property that \<open>config.roles\<close>
  inherits, \<open>getAllowedTools\<close> returns the empty list when the key is not
  registered, the list of known tools when the role's tools are the wildcard, and
  otherwise the role's own list of tools, as stored. The list of known tools is the
  one given at construction (or the built-in list when none is given), and neither
  \<open>registerRole\<close> nor \<open>mapApiKey\<close> changes it.
\<close>

lemma getAllowedTools_registered_cases:
  "(registered (roles config) role = None \<and> \<not> inherits (roles config) role \<longrightarrow>
      getAllowedTools role (worldOf config env h) = (Inr (Some []), worldOf config env h)) \<and>
   (registered (roles config) role = Some rc \<and> rc_tools rc = AllTools \<longrightarrow>
      getAllowedTools role (worldOf config env h) =
        (Inr (Some (knownTools config)), worldOf config env h)) \<and>
   (registered (roles config) role = Some rc \<and> rc_tools rc = ToolList ts \<longrightarrow>
      getAllowedTools role (worldOf config env h) = (Inr (Some ts), worldOf config env h)) \<and>
   knownTools (createMCPAuth userConfig) =
     (case uc_knownTools userConfig of Some known \<Rightarrow> known | None \<Rightarrow> DEFAULT_KNOWN_TOOLS) \<and>
   knownTools (w_config (after (registerRole key roleConfig) (worldOf config env h))) =
     knownTools config \<and>
   knownTools (w_config (after (mapApiKey prefix mapped) (worldOf config env h))) =
     knownTools config"
  by (simp add: getAllowedTools_def Let_def worldOf_simps roles_get_registered
      roles_get_unregistered roleConfig_get_def createMCPAuth_def after_worldOf)

text \<open>
  Claim C8 says that \<open>getAllowedTools\<close> returns the empty list for every role key
  that is not registered. On the default instance no role is registered under the
  key \<open>constructor\<close>, but \<open>config.roles['constructor']\<close> is the function \<open>Object\<close>,
  inherited from \<open>Object.prototype\<close>. It passes the test \<open>!roleConfig\<close>, it has no
  property \<open>tools\<close>, and \<open>getAllowedTools\<close> returns \<open>roleConfig.tools\<close>, which is
  \<open>undefined\<close>: neither the empty list nor any list at all.
\<close>

theorem getAllowedTools_inherited_key_undefined:
  "registered (roles mcpAuth) ''constructor'' = None \<and>
   ''constructor'' \<notin> fst ` set (role_entries (roles mcpAuth)) \<and>
   roles_get (roles mcpAuth) ''constructor'' = Fun ''Object'' \<and>
   getAllowedTools ''constructor'' (worldOf mcpAuth noEnv noObjects) =
     (Inr None, worldOf mcpAuth noEnv noObjects)"
proof -
  have "''constructor'' \<notin> fst ` set (role_entries (roles mcpAuth))"
    by (simp add: roles_mcpAuth DEFAULT_ROLES_def)
  moreover have "roles_get (roles mcpAuth) ''constructor'' = Fun ''Object''"
    by (simp add: roles_get_mcpAuth inherited_get_simps)
  ultimately show ?thesis
    by (simp add: registered_mcpAuth getAllowedTools_def Let_def worldOf_simps)
qed

text \<open>\<open>getBlockedTools\<close>, which ends in \<open>roleConfig.blockedTools || []\<close>, returns the empty list for the same key.\<close>

lemma getBlockedTools_inherited_key:
  "getBlockedTools ''constructor'' (worldOf mcpAuth noEnv noObjects) =
     (Inr [], worldOf mcpAuth noEnv noObjects)"
  by (simp add: getBlockedTools_def Let_def worldOf_simps roles_get_mcpAuth inherited_get_simps)

subsection \<open>Blocked tools of a role\<close>

text \<open>
  Claim C7. For every role key: \<open>getBlockedTools\<close> returns the empty list when the key
  is not registered or when the role's tools are the wildcard; otherwise it returns the
  role's own \<open>blockedTools\<close> list when the role has one and the empty list when it has
  none. The list of known tools plays no part in the result: replacing it leaves the
  result as it is. A role is registered under a key when construction or
  \<open>registerRole\<close> has put it there: \<open>registerRole\<close> sets the registration of its
  key and of no other, an entry of \<open>config.roles\<close> is a registration, and a key
  other than \<open>__proto__\<close> that has no entry is not registered. A key under which
  \<open>config.roles\<close> only finds an inherited property is not registered, and for it
  too the result is the empty list.
\<close>

theorem getBlockedTools_cases:
  "(registered (roles config) role = None \<longrightarrow>
      getBlockedTools role (worldOf config env h) = (Inr [], worldOf config env h)) \<and>
   (registered (roles config) role = Some rc \<and> rc_tools rc = AllTools \<longrightarrow>
      getBlockedTools role (worldOf config env h) = (Inr [], worldOf config env h)) \<and>
   (registered (roles config) role = Some rc \<and> rc_tools rc = ToolList ts \<and>
      rc_blockedTools rc = Some bs \<longrightarrow>
      getBlockedTools role (worldOf config env h) = (Inr bs, worldOf config env h)) \<and>
   (registered (roles config) role = Some rc \<and> rc_tools rc = ToolList ts \<and>
      rc_blockedTools rc = None \<longrightarrow>
      getBlockedTools role (worldOf config env h) = (Inr [], worldOf config env h)) \<and>
   fst (getBlockedTools role (worldOf (config\<lparr>knownTools := known\<rparr>) env h)) =
     fst (getBlockedTools role (worldOf config env h)) \<and>
   (map_of (role_entries (roles config)) role = Some rc \<longrightarrow>
      registered (roles config) role = Some rc) \<and>
   (role \<notin> fst ` set (role_entries (roles config)) \<and> role \<noteq> ''__proto__'' \<longrightarrow>
      registered (roles config) role = None) \<and>
   registered (roles (w_config (after (registerRole key roleConfig) (worldOf config env h)))) role
     = (if role = key then Some roleConfig else registered (roles config) role)"
proof (intro conjI impI)
  show "registered (roles (w_config (after (registerRole key roleConfig)
          (worldOf config env h)))) role
     = (if role = key then Some roleConfig else registered (roles config) role)"
    by (simp add: after_worldOf worldOf_simps registered_roles_assign)
next
  assume "role \<notin> fst ` set (role_entries (roles config)) \<and> role \<noteq> ''__proto__''"
  then show "registered (roles config) role = None"
    by (simp add: registered_def map_of_eq_None_iff split: option.splits)
qed (simp_all add: getBlockedTools_def Let_def worldOf_simps roles_get_registered
      tools_of_unregistered blockedTools_of_unregistered roleConfig_get_def registered_own
      split: js_value.splits)

text \<open>
  On the default instance: an unregistered key, the wildcard role, the role \<open>editor\<close>
  with its list of blocked tools, and the role \<open>viewer\<close>, which has none although
  the known tool \<open>create_user\<close> is not among its allowed tools.
\<close>

theorem getBlockedTools_cases_witness:
  "getBlockedTools ''ghost'' (worldOf mcpAuth noEnv noObjects) =
     (Inr [], worldOf mcpAuth noEnv noObjects) \<and>
   getBlockedTools ''admin'' (worldOf mcpAuth noEnv noObjects) =
     (Inr [], worldOf mcpAuth noEnv noObjects) \<and>
   getBlockedTools ''editor'' (worldOf mcpAuth noEnv noObjects) =
     (Inr (the (rc_blockedTools editorRole)), worldOf mcpAuth noEnv noObjects) \<and>
   length (the (rc_blockedTools editorRole)) = 30 \<and>
   ''create_user'' \<in> set (the (rc_blockedTools editorRole)) \<and>
   getBlockedTools ''viewer'' (worldOf mcpAuth noEnv noObjects) =
     (Inr [], worldOf mcpAuth noEnv noObjects) \<and>
   ''create_user'' \<in> set (knownTools mcpAuth) \<and>
   registered (roles (w_config (after (registerRole ''tester'' testerRole)
     (worldOf mcpAuth noEnv noObjects)))) ''tester'' = Some testerRole \<and>
   rc_tools viewerRole = ToolList
     [''list_content_types'', ''get_content_type'', ''get_structure_summary'',
      ''list_entries'', ''get_entry'', ''list_taxonomies'', ''get_taxonomy'',
      ''list_terms'', ''get_term'', ''get_entries_by_term'',
      ''search'', ''search_in_content_type'', ''search_suggest'']"
proof -
  have "getBlockedTools ''ghost'' (worldOf mcpAuth noEnv noObjects) =
     (Inr [], worldOf mcpAuth noEnv noObjects)"
    using getBlockedTools_cases[where role = "''ghost''" and config = mcpAuth and env = noEnv
        and h = noObjects]
    by (simp add: registered_mcpAuth)
  moreover have "getBlockedTools ''admin'' (worldOf mcpAuth noEnv noObjects) =
     (Inr [], worldOf mcpAuth noEnv noObjects)"
    using getBlockedTools_cases[where role = "''admin''" and config = mcpAuth and rc = adminRole
        and env = noEnv and h = noObjects]
    by (simp add: registered_mcpAuth adminRole_def)
  moreover have "getBlockedTools ''editor'' (worldOf mcpAuth noEnv noObjects) =
     (Inr (the (rc_blockedTools editorRole)), worldOf mcpAuth noEnv noObjects)"
    using getBlockedTools_cases[where role = "''editor''" and config = mcpAuth and rc = editorRole
        and ts = "case rc_tools editorRole of ToolList ts \<Rightarrow> ts"
        and bs = "the (rc_blockedTools editorRole)" and env = noEnv and h = noObjects]
    by (simp add: registered_mcpAuth editorRole_def)
  moreover have "length (the (rc_blockedTools editorRole)) = 30"
    "''create_user'' \<in> set (the (rc_blockedTools editorRole))"
    by (simp_all add: editorRole_def)
  moreover have "getBlockedTools ''viewer'' (worldOf mcpAuth noEnv noObjects) =
     (Inr [], worldOf mcpAuth noEnv noObjects)"
    using getBlockedTools_cases[where role = "''viewer''" and config = mcpAuth and rc = viewerRole
        and ts = "case rc_tools viewerRole of ToolList ts \<Rightarrow> ts" and env = noEnv
        and h = noObjects]
    by (simp add: registered_mcpAuth viewerRole_def)
  moreover have "''create_user'' \<in> set (knownTools mcpAuth)"
    by (simp add: knownTools_mcpAuth DEFAULT_KNOWN_TOOLS_def)
  moreover have "registered (roles (w_config (after (registerRole ''tester'' testerRole)
     (worldOf mcpAuth noEnv noObjects)))) ''tester'' = Some testerRole"
    using getBlockedTools_cases[where role = "''tester''" and key = "''tester''"
        and roleConfig = testerRole and config = mcpAuth and env = noEnv and h = noObjects]
    by simp
  moreover have "rc_tools viewerRole = ToolList
     [''list_content_types'', ''get_content_type'', ''get_structure_summary'',
      ''list_entries'', ''get_entry'', ''list_taxonomies'', ''get_taxonomy'',
      ''list_terms'', ''get_term'', ''get_entries_by_term'',
      ''search'', ''search_in_content_type'', ''search_suggest'']"
    by (simp add: viewerRole_def)
  ultimately show ?thesis by simp
qed

subsection \<open>The permission check\<close>

text \<open>
  Claim C3, amended. \<open>isToolAllowed\<close> acts on the role argument when that is a
  non-empty string, and on the role resolved from the environment when the argument
  is empty or absent. When the role it acts on is a role key that is not the name of
  a property that \<open>config.roles\<close> inherits, then for every tool name the check is
  false when the key is not registered, true when the role's tools are the wildcard,
  and otherwise true exactly when the tool name is in the role's list of tools.
\<close>

theorem isToolAllowed_cases:
  "(currentRole role (worldOf config env h) = (Inr (Str key), worldOf config env h) \<and>
      registered (roles config) key = None \<and> \<not> inherits (roles config) key \<longrightarrow>
      isToolAllowed toolName role (worldOf config env h) = (Inr False, worldOf config env h)) \<and>
   (currentRole role (worldOf config env h) = (Inr (Str key), worldOf config env h) \<and>
      registered (roles config) key = Some rc \<and> rc_tools rc = AllTools \<longrightarrow>
      isToolAllowed toolName role (worldOf config env h) = (Inr True, worldOf config env h)) \<and>
   (currentRole role (worldOf config env h) = (Inr (Str key), worldOf config env h) \<and>
      registered (roles config) key = Some rc \<and> rc_tools rc = ToolList ts \<longrightarrow>
      isToolAllowed toolName role (worldOf config env h) =
        (Inr (toolName \<in> set ts), worldOf config env h)) \<and>
   (given \<noteq> [] \<longrightarrow>
      currentRole (Some given) (worldOf config env h) = (Inr (Str given), worldOf config env h)) \<and>
   currentRole (Some []) (worldOf config env h) = getRoleFromEnv (worldOf config env h) \<and>
   currentRole None (worldOf config env h) = getRoleFromEnv (worldOf config env h)"
  by (auto simp: isToolAllowed_current worldOf_simps roles_get_registered roles_get_unregistered
      roleConfig_get_def currentRole_Some currentRole_empty)

text \<open>
  On the default instance: an unregistered key, the wildcard role, \<open>viewer\<close>, and no
  role argument in an environment that names \<open>editor\<close>.
\<close>

theorem isToolAllowed_cases_witness:
  "isToolAllowed ''list_entries'' (Some ''ghost'') (worldOf mcpAuth noEnv noObjects) =
     (Inr False, worldOf mcpAuth noEnv noObjects) \<and>
   isToolAllowed ''create_user'' (Some ''admin'') (worldOf mcpAuth noEnv noObjects) =
     (Inr True, worldOf mcpAuth noEnv noObjects) \<and>
   isToolAllowed ''list_entries'' (Some ''viewer'') (worldOf mcpAuth noEnv noObjects) =
     (Inr True, worldOf mcpAuth noEnv noObjects) \<and>
   isToolAllowed ''delete_entry'' (Some ''viewer'') (worldOf mcpAuth noEnv noObjects) =
     (Inr False, worldOf mcpAuth noEnv noObjects) \<and>
   isToolAllowed ''delete_entry'' None
       (worldOf mcpAuth (setenv noEnv ''AGENT_ROLE'' ''editor'') noObjects) =
     (Inr True, worldOf mcpAuth (setenv noEnv ''AGENT_ROLE'' ''editor'') noObjects)"
proof -
  have cur: "\<And>r. r \<noteq> [] \<Longrightarrow> currentRole (Some r) (worldOf mcpAuth noEnv noObjects) =
      (Inr (Str r), worldOf mcpAuth noEnv noObjects)"
    using isToolAllowed_cases[where config = mcpAuth and env = noEnv and h = noObjects]
    by simp
  have "isToolAllowed ''list_entries'' (Some ''ghost'') (worldOf mcpAuth noEnv noObjects) =
     (Inr False, worldOf mcpAuth noEnv noObjects)"
    using isToolAllowed_cases[where role = "Some ''ghost''" and key = "''ghost''"
        and config = mcpAuth and env = noEnv and h = noObjects] cur[of "''ghost''"]
    by (simp add: registered_mcpAuth inherits_mcpAuth prototypeMember_iff
        objectPrototypeMethods_def)
  moreover have "isToolAllowed ''create_user'' (Some ''admin'') (worldOf mcpAuth noEnv noObjects) =
     (Inr True, worldOf mcpAuth noEnv noObjects)"
    using isToolAllowed_cases[where role = "Some ''admin''" and key = "''admin''"
        and config = mcpAuth and rc = adminRole and env = noEnv and h = noObjects]
      cur[of "''admin''"]
    by (simp add: registered_mcpAuth adminRole_def)
  moreover have "isToolAllowed ''list_entries'' (Some ''viewer'') (worldOf mcpAuth noEnv noObjects) =
     (Inr True, worldOf mcpAuth noEnv noObjects)"
    using isToolAllowed_cases[where role = "Some ''viewer''" and key = "''viewer''"
        and config = mcpAuth and rc = viewerRole
        and ts = "case rc_tools viewerRole of ToolList ts \<Rightarrow> ts" and env = noEnv
        and toolName = "''list_entries''" and h = noObjects] cur[of "''viewer''"]
    by (simp add: registered_mcpAuth viewerRole_def)
  moreover have "isToolAllowed ''delete_entry'' (Some ''viewer'') (worldOf mcpAuth noEnv noObjects) =
     (Inr False, worldOf mcpAuth noEnv noObjects)"
    using isToolAllowed_cases[where role = "Some ''viewer''" and key = "''viewer''"
        and config = mcpAuth and rc = viewerRole
        and ts = "case rc_tools viewerRole of ToolList ts \<Rightarrow> ts" and env = noEnv
        and toolName = "''delete_entry''" and h = noObjects] cur[of "''viewer''"]
    by (simp add: registered_mcpAuth viewerRole_def)
  moreover
  have res: "getRoleFromEnv (worldOf mcpAuth (setenv noEnv ''AGENT_ROLE'' ''editor'') noObjects) =
     (Inr (Str ''editor''), worldOf mcpAuth (setenv noEnv ''AGENT_ROLE'' ''editor'') noObjects)"
    by (simp add: getRoleFromEnv_worldOf envVars_mcpAuth getenv_simps roles_get_mcpAuth)
  have "isToolAllowed ''delete_entry'' None
       (worldOf mcpAuth (setenv noEnv ''AGENT_ROLE'' ''editor'') noObjects) =
     (Inr True, worldOf mcpAuth (setenv noEnv ''AGENT_ROLE'' ''editor'') noObjects)"
    using isToolAllowed_cases[where role = None and key = "''editor''"
        and config = mcpAuth and rc = editorRole
        and ts = "case rc_tools editorRole of ToolList ts \<Rightarrow> ts"
        and env = "setenv noEnv ''AGENT_ROLE'' ''editor''"
        and toolName = "''delete_entry''" and h = noObjects] res
    by (simp add: registered_mcpAuth editorRole_def)
  ultimately show ?thesis by simp
qed

text \<open>
  The claim as first stated fails for the empty role key: it is not registered, yet
  with the role variable set to \<open>admin\<close> the check succeeds.
\<close>

theorem isToolAllowed_empty_role_counterexample:
  "registered (roles mcpAuth) '''' = None \<and>
   fst (isToolAllowed ''create_user'' (Some '''')
          (worldOf mcpAuth (setenv noEnv ''AGENT_ROLE'' ''admin'') noObjects)) = Inr True"
proof -
  let ?w = "worldOf mcpAuth (setenv noEnv ''AGENT_ROLE'' ''admin'') noObjects"
  have "currentRole (Some '''') ?w = (Inr (Str ''admin''), ?w)"
    by (simp add: currentRole_empty getRoleFromEnv_worldOf envVars_mcpAuth getenv_simps
        roles_get_mcpAuth)
  then have "fst (isToolAllowed ''create_user'' (Some '''') ?w) = Inr True"
    by (simp add: isToolAllowed_current worldOf_simps roles_get_mcpAuth roleConfig_get_def
        adminRole_def)
  then show ?thesis by (simp add: registered_mcpAuth)
qed

subsection \<open>Filtering a collection\<close>

text \<open>
  Claim C6, amended. Let the store hold a collection of tools (an object with string
  keys) at reference \<open>tools\<close>. \<open>filterTools\<close> acts on the role argument when that is
  a non-empty string, and on the role resolved from the environment when the
  argument is empty or absent. When the role it acts on is a role key, it returns a
  new empty object when the key is not registered; the given object itself (same
  reference, store untouched) when the role's tools are the wildcard; and otherwise,
  for a collection with no key \<open>__proto__\<close>, a new object holding exactly the entries
  of the collection whose key is in the role's list of tools, each entry as it is in
  the collection and in the collection's order. Whenever \<open>filterTools\<close> returns, for
  any role argument, the configuration, the environment and the store as it was
  before the call are unchanged, so the collection is not mutated, and every entry of
  the result is an entry of the collection; in particular the result's keys are keys
  of the collection.
\<close>

theorem filterTools_cases:
  assumes "tools < length h"
  shows
  "(currentRole role (worldOf config env h) = (Inr (Str key), worldOf config env h) \<and>
      registered (roles config) key = None \<longrightarrow>
      filterTools tools role (worldOf config env h) =
        (Inr (length h), worldOf config env (h @ [[]]))) \<and>
   (currentRole role (worldOf config env h) = (Inr (Str key), worldOf config env h) \<and>
      registered (roles config) key = Some rc \<and> rc_tools rc = AllTools \<longrightarrow>
      filterTools tools role (worldOf config env h) = (Inr tools, worldOf config env h)) \<and>
   (currentRole role (worldOf config env h) = (Inr (Str key), worldOf config env h) \<and>
      registered (roles config) key = Some rc \<and> rc_tools rc = ToolList ts \<and>
      wf_object (h ! tools) \<and> ''__proto__'' \<notin> fst ` set (h ! tools) \<longrightarrow>
      filterTools tools role (worldOf config env h) =
        (Inr (length h),
         worldOf config env (h @ [filter (\<lambda>entry. fst entry \<in> set ts) (h ! tools)]))) \<and>
   (filterTools tools role (worldOf config env h) = (Inr result, w') \<longrightarrow>
      w_config w' = config \<and> w_env w' = env \<and> take (length h) (w_store w') = h \<and>
      result < length (w_store w') \<and>
      set (w_store w' ! result) \<subseteq> set (h ! tools) \<and>
      fst ` set (w_store w' ! result) \<subseteq> fst ` set (h ! tools)) \<and>
   (given \<noteq> [] \<longrightarrow>
      currentRole (Some given) (worldOf config env h) = (Inr (Str given), worldOf config env h)) \<and>
   currentRole (Some []) (worldOf config env h) = getRoleFromEnv (worldOf config env h) \<and>
   currentRole None (worldOf config env h) = getRoleFromEnv (worldOf config env h)"
proof (intro conjI impI)
  let ?w = "worldOf config env h"
  note len = assms
  {
    assume a: "currentRole role ?w = (Inr (Str key), ?w) \<and> registered (roles config) key = None"
    then have "tools_of (roles_get (roles config) key) = Undefined"
      by (simp add: tools_of_unregistered)
    then show "filterTools tools role ?w = (Inr (length h), worldOf config env (h @ [[]]))"
      using a len by (simp add: filterTools_worldOf foldl_copyEntry_none)
  next
    assume a: "currentRole role ?w = (Inr (Str key), ?w) \<and>
      registered (roles config) key = Some rc \<and> rc_tools rc = AllTools"
    then show "filterTools tools role ?w = (Inr tools, ?w)"
      using len
      by (simp add: filterTools_worldOf roles_get_registered roleConfig_get_def)
  next
    assume a: "currentRole role ?w = (Inr (Str key), ?w) \<and>
      registered (roles config) key = Some rc \<and> rc_tools rc = ToolList ts \<and>
      wf_object (h ! tools) \<and> ''__proto__'' \<notin> fst ` set (h ! tools)"
    then have "foldl (copyEntry ts) [] (h ! tools) = filter (\<lambda>entry. fst entry \<in> set ts) (h ! tools)"
      by (simp add: foldl_copyEntry_no_proto)
    then show "filterTools tools role ?w =
        (Inr (length h),
         worldOf config env (h @ [filter (\<lambda>entry. fst entry \<in> set ts) (h ! tools)]))"
      using a len
      by (simp add: filterTools_worldOf roles_get_registered roleConfig_get_def)
  next
    assume res: "filterTools tools role ?w = (Inr result, w')"
    then obtain current where cur: "currentRole role ?w = (Inr current, ?w)"
      using filterTools_returns_current by blast
    let ?v = "roles_get (roles config) (js_toString current)"
    let ?ts = "case tools_of ?v of Arr ts \<Rightarrow> ts | _ \<Rightarrow> []"
    have eq: "(Inr result :: js_error + nat, w') =
      (if \<not> truthy ?v then (Inr (length h), worldOf config env (h @ [[]]))
       else if tools_of ?v = Str ''*'' then (Inr tools, ?w)
       else (Inr (length h), worldOf config env (h @ [foldl (copyEntry ?ts) [] (h ! tools)])))"
      using res unfolding filterTools_worldOf[OF cur len] by (rule sym)
    have sub: "set (foldl (copyEntry ?ts) [] (h ! tools)) \<subseteq> set (h ! tools)"
      using set_foldl_copyEntry[of ?ts "[]" "h ! tools"] by simp
    have "w_config w' = config \<and> w_env w' = env \<and> take (length h) (w_store w') = h \<and>
      result < length (w_store w') \<and> set (w_store w' ! result) \<subseteq> set (h ! tools)"
      using eq sub assms by (auto simp: worldOf_simps split: if_splits)
    then show "w_config w' = config" "w_env w' = env" "take (length h) (w_store w') = h"
      "result < length (w_store w')"
      "set (w_store w' ! result) \<subseteq> set (h ! tools)"
      "fst ` set (w_store w' ! result) \<subseteq> fst ` set (h ! tools)"
      by auto
  next
    assume "given \<noteq> []"
    then show "currentRole (Some given) ?w = (Inr (Str given), ?w)"
      by (rule currentRole_Some)
  next
    show "currentRole (Some []) ?w = getRoleFromEnv ?w" "currentRole None ?w = getRoleFromEnv ?w"
      by (simp_all add: currentRole_empty)
  }
qed

text \<open>
  On the default instance and the example collection: an unregistered key, the key
  \<open>constructor\<close>, the wildcard role, \<open>editor\<close>, who may use \<open>search\<close> and
  \<open>list_entries\<close> but not \<open>create_user\<close>, and no role argument in an environment
  that names \<open>editor\<close>.
\<close>

theorem filterTools_cases_witness:
  "filterTools 0 (Some ''ghost'') (worldOf mcpAuth noEnv [demoTools]) =
     (Inr 1, worldOf mcpAuth noEnv [demoTools, []]) \<and>
   filterTools 0 (Some ''constructor'') (worldOf mcpAuth noEnv [demoTools]) =
     (Inr 1, worldOf mcpAuth noEnv [demoTools, []]) \<and>
   filterTools 0 (Some ''admin'') (worldOf mcpAuth noEnv [demoTools]) =
     (Inr 0, worldOf mcpAuth noEnv [demoTools]) \<and>
   filterTools 0 (Some ''editor'') (worldOf mcpAuth noEnv [demoTools]) =
     (Inr 1, worldOf mcpAuth noEnv [demoTools, [(''search'', 1), (''list_entries'', 3)]]) \<and>
   fst ` set [(''search'', 1::nat), (''list_entries'', 3)] \<subseteq> fst ` set demoTools \<and>
   filterTools 0 None (worldOf mcpAuth (setenv noEnv ''AGENT_ROLE'' ''editor'') [demoTools]) =
     (Inr 1, worldOf mcpAuth (setenv noEnv ''AGENT_ROLE'' ''editor'')
               [demoTools, [(''search'', 1), (''list_entries'', 3)]])"
proof -
  have len: "0 < length [demoTools]" by simp
  have cur: "\<And>r. r \<noteq> [] \<Longrightarrow> currentRole (Some r) (worldOf mcpAuth noEnv [demoTools]) =
      (Inr (Str r), worldOf mcpAuth noEnv [demoTools])"
    using filterTools_cases[OF len, where config = mcpAuth and env = noEnv] by simp
  have wf: "wf_object ([demoTools] ! 0)" "''__proto__'' \<notin> fst ` set ([demoTools] ! 0)"
    by (simp_all add: wf_demoTools) (simp add: demoTools_def)
  have "filterTools 0 (Some ''ghost'') (worldOf mcpAuth noEnv [demoTools]) =
     (Inr 1, worldOf mcpAuth noEnv [demoTools, []])"
    using filterTools_cases[OF len, where role = "Some ''ghost''" and key = "''ghost''"
        and config = mcpAuth and env = noEnv] cur[of "''ghost''"]
    by (simp add: registered_mcpAuth)
  moreover
  have "filterTools 0 (Some ''constructor'') (worldOf mcpAuth noEnv [demoTools]) =
     (Inr 1, worldOf mcpAuth noEnv [demoTools, []])"
    using filterTools_cases[OF len, where role = "Some ''constructor''"
        and key = "''constructor''" and config = mcpAuth and env = noEnv]
      cur[of "''constructor''"]
    by (simp add: registered_mcpAuth)
  moreover
  have "filterTools 0 (Some ''admin'') (worldOf mcpAuth noEnv [demoTools]) =
     (Inr 0, worldOf mcpAuth noEnv [demoTools])"
    using filterTools_cases[OF len, where role = "Some ''admin''" and key = "''admin''"
        and config = mcpAuth and env = noEnv and rc = adminRole] cur[of "''admin''"]
    by (simp add: registered_mcpAuth adminRole_def)
  moreover
  have ed: "filterTools 0 (Some ''editor'') (worldOf mcpAuth noEnv [demoTools]) =
     (Inr 1, worldOf mcpAuth noEnv [demoTools, [(''search'', 1), (''list_entries'', 3)]])"
    using filterTools_cases[OF len, where role = "Some ''editor''" and key = "''editor''"
        and config = mcpAuth and env = noEnv
        and rc = editorRole and ts = "case rc_tools editorRole of ToolList ts \<Rightarrow> ts"]
      cur[of "''editor''"] wf
    by (simp add: registered_mcpAuth editorRole_def demoTools_def)
  moreover
  have "fst ` set [(''search'', 1::nat), (''list_entries'', 3)] \<subseteq> fst ` set demoTools"
    using filterTools_cases[OF len, where config = mcpAuth and env = noEnv
        and role = "Some ''editor''" and result = 1
        and w' = "worldOf mcpAuth noEnv [demoTools, [(''search'', 1), (''list_entries'', 3)]]"]
      ed
    by (simp add: worldOf_simps)
  moreover
  have res: "getRoleFromEnv (worldOf mcpAuth (setenv noEnv ''AGENT_ROLE'' ''editor'') [demoTools]) =
     (Inr (Str ''editor''), worldOf mcpAuth (setenv noEnv ''AGENT_ROLE'' ''editor'') [demoTools])"
    by (simp add: getRoleFromEnv_worldOf envVars_mcpAuth getenv_simps roles_get_mcpAuth)
  have "filterTools 0 None (worldOf mcpAuth (setenv noEnv ''AGENT_ROLE'' ''editor'') [demoTools]) =
     (Inr 1, worldOf mcpAuth (setenv noEnv ''AGENT_ROLE'' ''editor'')
               [demoTools, [(''search'', 1), (''list_entries'', 3)]])"
    using filterTools_cases[OF len, where role = None and key = "''editor''"
        and config = mcpAuth and env = "setenv noEnv ''AGENT_ROLE'' ''editor''"
        and rc = editorRole and ts = "case rc_tools editorRole of ToolList ts \<Rightarrow> ts"]
      res wf
    by (simp add: registered_mcpAuth editorRole_def demoTools_def)
  ultimately show ?thesis by simp
qed

text \<open>
  The claim as first stated fails for the empty role key: it is not registered, yet
  with the role variable set to \<open>admin\<close> the result is the whole collection, not an
  empty one.
\<close>

theorem filterTools_empty_role_counterexample:
  "registered (roles mcpAuth) '''' = None \<and>
   filterTools 0 (Some '''') (worldOf mcpAuth (setenv noEnv ''AGENT_ROLE'' ''admin'') [demoTools]) =
     (Inr 0, worldOf mcpAuth (setenv noEnv ''AGENT_ROLE'' ''admin'') [demoTools]) \<and>
   demoTools \<noteq> []"
proof -
  let ?w = "worldOf mcpAuth (setenv noEnv ''AGENT_ROLE'' ''admin'') [demoTools]"
  have cur: "currentRole (Some '''') ?w = (Inr (Str ''admin''), ?w)"
    by (simp add: currentRole_empty getRoleFromEnv_worldOf envVars_mcpAuth getenv_simps
        roles_get_mcpAuth)
  have "filterTools 0 (Some '''') ?w = (Inr 0, ?w)"
    using filterTools_worldOf[OF cur, of 0]
    by (simp add: roles_get_mcpAuth roleConfig_get_def adminRole_def)
  then show ?thesis by (simp add: registered_mcpAuth demoTools_def)
qed

subsection \<open>Filtering twice\<close>

text \<open>
  Claim C9. Filtering is idempotent: for every collection and every role argument,
  when \<open>filterTools\<close> returns, filtering its result again, with the same role
  argument, returns an object with the same entries in the same order.
\<close>

theorem filterTools_idempotent:
  assumes "tools < length (w_store w)"
    and "filterTools tools role w = (Inr once, w1)"
  shows "\<exists>twice w2. filterTools once role w1 = (Inr twice, w2) \<and>
           w_store w2 ! twice = w_store w1 ! once"
proof -
  obtain current where cur: "currentRole role w = (Inr current, w)"
    using filterTools_returns_current[OF assms(2)] by blast
  let ?v = "roles_get (roles (w_config w)) (js_toString current)"
  let ?ts = "case tools_of ?v of Arr ts \<Rightarrow> ts | _ \<Rightarrow> []"
  let ?F = "foldl (copyEntry ?ts) [] (w_store w ! tools)"
  note first = filterTools_current[OF cur assms(1)]
  consider (none) "\<not> truthy ?v" | (all) "truthy ?v" "tools_of ?v = Str ''*''"
    | (list) "truthy ?v" "tools_of ?v \<noteq> Str ''*''"
    by blast
  then show ?thesis
  proof cases
    case none
    have w1: "w1 = w\<lparr>w_store := w_store w @ [[]]\<rparr>" "once = length (w_store w)"
      using first assms(2) none by simp_all
    have cur1: "currentRole role w1 = (Inr current, w1)"
      unfolding w1 using cur by (rule currentRole_store)
    have "filterTools once role w1 =
          (Inr (length (w_store w1)), w1\<lparr>w_store := w_store w1 @ [[]]\<rparr>)"
      using filterTools_current[OF cur1, of once] none by (simp add: w1)
    then show ?thesis by (simp add: w1 nth_append)
  next
    case all
    have w1: "w1 = w" "once = tools"
      using first assms(2) all by simp_all
    have "filterTools once role w1 = (Inr tools, w)"
      using first all by (simp add: w1)
    then show ?thesis by (simp add: w1)
  next
    case list
    have w1: "w1 = w\<lparr>w_store := w_store w @ [?F]\<rparr>" "once = length (w_store w)"
      using first assms(2) list by simp_all
    have cur1: "currentRole role w1 = (Inr current, w1)"
      unfolding w1 using cur by (rule currentRole_store)
    have "filterTools once role w1 =
          (Inr (length (w_store w1)),
           w1\<lparr>w_store := w_store w1 @ [foldl (copyEntry ?ts) [] (w_store w1 ! once)]\<rparr>)"
      using filterTools_current[OF cur1, of once] list by (simp add: w1)
    moreover have "foldl (copyEntry ?ts) [] (w_store w1 ! once) = ?F"
      by (simp add: w1 foldl_copyEntry_twice)
    ultimately show ?thesis by (simp add: w1 nth_append)
  qed
qed

text \<open>Filtering the example collection for \<open>editor\<close>, twice.\<close>

theorem filterTools_idempotent_witness:
  "filterTools 0 (Some ''editor'') (worldOf mcpAuth noEnv [demoTools]) =
     (Inr 1, worldOf mcpAuth noEnv [demoTools, [(''search'', 1), (''list_entries'', 3)]]) \<and>
   (\<exists>twice w2.
      filterTools 1 (Some ''editor'')
        (worldOf mcpAuth noEnv [demoTools, [(''search'', 1), (''list_entries'', 3)]]) =
        (Inr twice, w2) \<and>
      w_store w2 ! twice = [(''search'', 1), (''list_entries'', 3)]) \<and>
   filterTools 1 (Some ''editor'')
     (worldOf mcpAuth noEnv [demoTools, [(''search'', 1), (''list_entries'', 3)]]) =
     (Inr 2, worldOf mcpAuth noEnv
       [demoTools, [(''search'', 1), (''list_entries'', 3)],
        [(''search'', 1), (''list_entries'', 3)]])"
proof -
  have cur: "\<And>s. currentRole (Some ''editor'') (worldOf mcpAuth noEnv s) =
      (Inr (Str ''editor''), worldOf mcpAuth noEnv s)"
    by (simp add: currentRole_Some)
  have once: "filterTools 0 (Some ''editor'') (worldOf mcpAuth noEnv [demoTools]) =
     (Inr 1, worldOf mcpAuth noEnv [demoTools, [(''search'', 1), (''list_entries'', 3)]])"
    using filterTools_worldOf[OF cur, of 0 "[demoTools]"]
    by (simp add: roles_get_mcpAuth roleConfig_get_def editorRole_def demoTools_def
        copyEntry_def js_assign_def js_define_eval)
  have twice: "filterTools 1 (Some ''editor'')
     (worldOf mcpAuth noEnv [demoTools, [(''search'', 1), (''list_entries'', 3)]]) =
     (Inr 2, worldOf mcpAuth noEnv
       [demoTools, [(''search'', 1), (''list_entries'', 3)],
        [(''search'', 1), (''list_entries'', 3)]])"
    using filterTools_worldOf[OF cur, of 1 "[demoTools, [(''search'', 1), (''list_entries'', 3)]]"]
    by (simp add: roles_get_mcpAuth roleConfig_get_def editorRole_def
        copyEntry_def js_assign_def js_define_eval)
  have "\<exists>twice w2.
      filterTools 1 (Some ''editor'')
        (worldOf mcpAuth noEnv [demoTools, [(''search'', 1), (''list_entries'', 3)]]) =
        (Inr twice, w2) \<and>
      w_store w2 ! twice = [(''search'', 1), (''list_entries'', 3)]"
    using filterTools_idempotent[OF _ once] by (simp add: worldOf_simps)
  then show ?thesis using once twice by simp
qed

subsection \<open>Independence from the environment\<close>

lemma isToolAllowed_resolved:
  "isToolAllowed toolName None w =
   andThen getRoleFromEnv (\<lambda>resolved. isToolAllowed toolName (Some (js_toString resolved))) w"
proof (cases "fst (getRoleFromEnv w)")
  case (Inl e)
  then have r: "getRoleFromEnv w = (Inl e, w)"
    using getRoleFromEnv_world[of w] by (metis prod.collapse)
  then have "currentRole None w = (Inl e, w)" by (simp add: currentRole_empty)
  then show ?thesis using r by (simp add: isToolAllowed_thrown andThen_def)
next
  case (Inr resolved)
  then have r: "getRoleFromEnv w = (Inr resolved, w)"
    using getRoleFromEnv_world[of w] by (metis prod.collapse)
  then have none: "currentRole None w = (Inr resolved, w)" by (simp add: currentRole_empty)
  obtain again where again: "currentRole (Some (js_toString resolved)) w = (Inr again, w)"
    "js_toString again = js_toString resolved"
    using currentRole_resolved[OF r] by blast
  show ?thesis
    using r by (simp add: andThen_def isToolAllowed_current[OF none]
        isToolAllowed_current[OF again(1)] again(2))
qed

lemma filterTools_resolved:
  assumes "tools < length (w_store w)"
  shows "filterTools tools None w =
   andThen getRoleFromEnv (\<lambda>resolved. filterTools tools (Some (js_toString resolved))) w"
proof (cases "fst (getRoleFromEnv w)")
  case (Inl e)
  then have r: "getRoleFromEnv w = (Inl e, w)"
    using getRoleFromEnv_world[of w] by (metis prod.collapse)
  then have "currentRole None w = (Inl e, w)" by (simp add: currentRole_empty)
  then show ?thesis using r by (simp add: filterTools_thrown andThen_def)
next
  case (Inr resolved)
  then have r: "getRoleFromEnv w = (Inr resolved, w)"
    using getRoleFromEnv_world[of w] by (metis prod.collapse)
  then have none: "currentRole None w = (Inr resolved, w)" by (simp add: currentRole_empty)
  obtain again where again: "currentRole (Some (js_toString resolved)) w = (Inr again, w)"
    "js_toString again = js_toString resolved"
    using currentRole_resolved[OF r] by blast
  show ?thesis
    using r by (simp add: andThen_def filterTools_current[OF none assms]
        filterTools_current[OF again(1) assms] again(2))
qed

text \<open>
  Claim C10, amended. For a fixed configuration and store: \<open>getAllowedTools\<close>,
  \<open>getBlockedTools\<close> and \<open>getRoleFromApiKey\<close>, and \<open>isToolAllowed\<close> and
  \<open>filterTools\<close> called with a non-empty role key, have the same outcome in any two
  environments and leave the world as it was, but for the object that \<open>filterTools\<close>
  allocates, which is the same in both. \<open>getRoleFromEnv\<close> has the same outcome in
  any two environments that agree on the role variable and on the API-key variable,
  and leaves the world as it was. Called with an empty role key or with none,
  \<open>isToolAllowed\<close> and \<open>filterTools\<close> do what they do when called with the role
  that \<open>getRoleFromEnv\<close> returns.
\<close>

theorem explicit_calls_ignore_environment:
  "fst (getAllowedTools role (worldOf config envA h)) =
     fst (getAllowedTools role (worldOf config envB h)) \<and>
   after (getAllowedTools role) (worldOf config envA h) = worldOf config envA h \<and>
   fst (getBlockedTools role (worldOf config envA h)) =
     fst (getBlockedTools role (worldOf config envB h)) \<and>
   after (getBlockedTools role) (worldOf config envA h) = worldOf config envA h \<and>
   fst (getRoleFromApiKey (Str apiKey) (worldOf config envA h)) =
     fst (getRoleFromApiKey (Str apiKey) (worldOf config envB h)) \<and>
   after (getRoleFromApiKey (Str apiKey)) (worldOf config envA h) = worldOf config envA h \<and>
   (role \<noteq> [] \<longrightarrow>
      fst (isToolAllowed toolName (Some role) (worldOf config envA h)) =
        fst (isToolAllowed toolName (Some role) (worldOf config envB h)) \<and>
      after (isToolAllowed toolName (Some role)) (worldOf config envA h) =
        worldOf config envA h) \<and>
   (role \<noteq> [] \<and> tools < length h \<longrightarrow>
      fst (filterTools tools (Some role) (worldOf config envA h)) =
        fst (filterTools tools (Some role) (worldOf config envB h)) \<and>
      w_store (after (filterTools tools (Some role)) (worldOf config envA h)) =
        w_store (after (filterTools tools (Some role)) (worldOf config envB h)) \<and>
      w_config (after (filterTools tools (Some role)) (worldOf config envA h)) = config \<and>
      w_env (after (filterTools tools (Some role)) (worldOf config envA h)) = envA \<and>
      take (length h) (w_store (after (filterTools tools (Some role)) (worldOf config envA h)))
        = h) \<and>
   isToolAllowed toolName None (worldOf config envA h) =
     andThen getRoleFromEnv (\<lambda>resolved. isToolAllowed toolName (Some (js_toString resolved)))
       (worldOf config envA h) \<and>
   isToolAllowed toolName (Some []) (worldOf config envA h) =
     isToolAllowed toolName None (worldOf config envA h) \<and>
   (tools < length h \<longrightarrow>
      filterTools tools None (worldOf config envA h) =
        andThen getRoleFromEnv (\<lambda>resolved. filterTools tools (Some (js_toString resolved)))
          (worldOf config envA h)) \<and>
   filterTools tools (Some []) (worldOf config envA h) =
     filterTools tools None (worldOf config envA h) \<and>
   (envA (roleEnvVar config) = envB (roleEnvVar config) \<and>
    envA (apiKeyEnvVar config) = envB (apiKeyEnvVar config) \<longrightarrow>
      fst (getRoleFromEnv (worldOf config envA h)) =
        fst (getRoleFromEnv (worldOf config envB h))) \<and>
   after getRoleFromEnv (worldOf config envA h) = worldOf config envA h"
proof (intro conjI impI)
  show "fst (getAllowedTools role (worldOf config envA h)) =
     fst (getAllowedTools role (worldOf config envB h))"
    by (simp add: getAllowedTools_def Let_def worldOf_simps split: js_value.splits)
  show "after (getAllowedTools role) (worldOf config envA h) = worldOf config envA h"
    by (simp add: after_def getAllowedTools_def Let_def split: js_value.splits)
  show "fst (getBlockedTools role (worldOf config envA h)) =
     fst (getBlockedTools role (worldOf config envB h))"
    by (simp add: getBlockedTools_def Let_def worldOf_simps split: js_value.splits)
  show "after (getBlockedTools role) (worldOf config envA h) = worldOf config envA h"
    by (simp add: after_def getBlockedTools_def Let_def split: js_value.splits)
  show "fst (getRoleFromApiKey (Str apiKey) (worldOf config envA h)) =
     fst (getRoleFromApiKey (Str apiKey) (worldOf config envB h))"
    by (rule getRoleFromApiKey_cong) (simp add: worldOf_simps)
  show "after (getRoleFromApiKey (Str apiKey)) (worldOf config envA h) = worldOf config envA h"
    by (simp add: after_def getRoleFromApiKey_world)
  show "after getRoleFromEnv (worldOf config envA h) = worldOf config envA h"
    by (simp add: after_def getRoleFromEnv_world)
  show "isToolAllowed toolName None (worldOf config envA h) =
     andThen getRoleFromEnv (\<lambda>resolved. isToolAllowed toolName (Some (js_toString resolved)))
       (worldOf config envA h)"
    by (rule isToolAllowed_resolved)
  show "isToolAllowed toolName (Some []) (worldOf config envA h) =
     isToolAllowed toolName None (worldOf config envA h)"
    by (simp add: isToolAllowed_def currentRole_def andThen_def)
  show "filterTools tools (Some []) (worldOf config envA h) =
     filterTools tools None (worldOf config envA h)"
    by (simp add: filterTools_def currentRole_def andThen_def)
next
  assume r: "role \<noteq> []"
  have cur: "\<And>env. currentRole (Some role) (worldOf config env h) =
      (Inr (Str role), worldOf config env h)"
    using r by (simp add: currentRole_Some)
  show "fst (isToolAllowed toolName (Some role) (worldOf config envA h)) =
        fst (isToolAllowed toolName (Some role) (worldOf config envB h))"
    by (simp add: isToolAllowed_current[OF cur] worldOf_simps split: js_value.splits)
  show "after (isToolAllowed toolName (Some role)) (worldOf config envA h) =
        worldOf config envA h"
    by (simp add: after_def isToolAllowed_current[OF cur] split: js_value.splits)
next
  assume a: "role \<noteq> [] \<and> tools < length h"
  have cur: "\<And>env. currentRole (Some role) (worldOf config env h) =
      (Inr (Str role), worldOf config env h)"
    using a by (simp add: currentRole_Some)
  have len: "tools < length h" using a by simp
  show "fst (filterTools tools (Some role) (worldOf config envA h)) =
        fst (filterTools tools (Some role) (worldOf config envB h))"
    by (simp add: filterTools_worldOf[OF cur len])
  show "w_store (after (filterTools tools (Some role)) (worldOf config envA h)) =
        w_store (after (filterTools tools (Some role)) (worldOf config envB h))"
    by (simp add: after_def filterTools_worldOf[OF cur len] worldOf_simps)
  show "w_config (after (filterTools tools (Some role)) (worldOf config envA h)) = config"
    by (simp add: after_def filterTools_worldOf[OF cur len] worldOf_simps)
  show "w_env (after (filterTools tools (Some role)) (worldOf config envA h)) = envA"
    by (simp add: after_def filterTools_worldOf[OF cur len] worldOf_simps)
  show "take (length h) (w_store (after (filterTools tools (Some role)) (worldOf config envA h)))
        = h"
    by (simp add: after_def filterTools_worldOf[OF cur len] worldOf_simps)
next
  assume "tools < length h"
  then show "filterTools tools None (worldOf config envA h) =
        andThen getRoleFromEnv (\<lambda>resolved. filterTools tools (Some (js_toString resolved)))
          (worldOf config envA h)"
    by (intro filterTools_resolved) (simp add: worldOf_simps)
next
  assume "envA (roleEnvVar config) = envB (roleEnvVar config) \<and>
    envA (apiKeyEnvVar config) = envB (apiKeyEnvVar config)"
  then show "fst (getRoleFromEnv (worldOf config envA h)) =
        fst (getRoleFromEnv (worldOf config envB h))"
    by (intro getRoleFromEnv_cong) (simp_all add: worldOf_simps)
qed

text \<open>
  Calls for the role \<open>editor\<close> with and without a role variable, a call without a
  role argument, and role resolution with an unrelated variable added.
\<close>

theorem explicit_calls_ignore_environment_witness:
  "fst (isToolAllowed ''create_user'' (Some ''editor'')
          (worldOf mcpAuth (setenv noEnv ''AGENT_ROLE'' ''admin'') [demoTools])) = Inr False \<and>
   fst (filterTools 0 (Some ''editor'')
          (worldOf mcpAuth (setenv noEnv ''AGENT_ROLE'' ''admin'') [demoTools])) = Inr 1 \<and>
   w_store (after (filterTools 0 (Some ''editor''))
          (worldOf mcpAuth (setenv noEnv ''AGENT_ROLE'' ''admin'') [demoTools])) =
     [demoTools, [(''search'', 1), (''list_entries'', 3)]] \<and>
   isToolAllowed ''create_user'' None
       (worldOf mcpAuth (setenv noEnv ''AGENT_ROLE'' ''admin'') [demoTools]) =
     (Inr True, worldOf mcpAuth (setenv noEnv ''AGENT_ROLE'' ''admin'') [demoTools]) \<and>
   filterTools 0 None (worldOf mcpAuth (setenv noEnv ''AGENT_ROLE'' ''admin'') [demoTools]) =
     (Inr 0, worldOf mcpAuth (setenv noEnv ''AGENT_ROLE'' ''admin'') [demoTools]) \<and>
   fst (getRoleFromEnv (worldOf mcpAuth
          (setenv (setenv noEnv ''AGENT_ROLE'' ''editor'') ''HOME'' ''/root'') [demoTools])) =
     Inr (Str ''editor'')"
proof -
  let ?admin = "setenv noEnv ''AGENT_ROLE'' ''admin''"
  note inst = explicit_calls_ignore_environment[where config = mcpAuth and h = "[demoTools]"]
  have cur: "\<And>r env. r \<noteq> [] \<Longrightarrow> currentRole (Some r) (worldOf mcpAuth env [demoTools]) =
      (Inr (Str r), worldOf mcpAuth env [demoTools])"
    by (simp add: currentRole_Some)
  have plain: "fst (isToolAllowed ''create_user'' (Some ''editor'')
          (worldOf mcpAuth noEnv [demoTools])) = Inr False"
    by (simp add: isToolAllowed_current[OF cur] worldOf_simps roles_get_mcpAuth
        roleConfig_get_def editorRole_def)
  have "fst (isToolAllowed ''create_user'' (Some ''editor'')
          (worldOf mcpAuth ?admin [demoTools])) = Inr False"
    using inst[where role = "''editor''" and toolName = "''create_user''"
        and envA = ?admin and envB = noEnv] plain
    by simp
  moreover
  have filtered: "filterTools 0 (Some ''editor'') (worldOf mcpAuth noEnv [demoTools]) =
     (Inr 1, worldOf mcpAuth noEnv [demoTools, [(''search'', 1), (''list_entries'', 3)]])"
    using filterTools_worldOf[OF cur, of "''editor''" 0 noEnv]
    by (simp add: roles_get_mcpAuth roleConfig_get_def editorRole_def demoTools_def
        copyEntry_def js_assign_def js_define_eval)
  have "fst (filterTools 0 (Some ''editor'') (worldOf mcpAuth ?admin [demoTools])) = Inr 1 \<and>
        w_store (after (filterTools 0 (Some ''editor'')) (worldOf mcpAuth ?admin [demoTools])) =
          [demoTools, [(''search'', 1), (''list_entries'', 3)]]"
    using inst[where role = "''editor''" and tools = 0 and envA = ?admin and envB = noEnv]
      filtered
    by (simp add: after_def worldOf_simps)
  moreover
  have res: "getRoleFromEnv (worldOf mcpAuth ?admin [demoTools]) =
      (Inr (Str ''admin''), worldOf mcpAuth ?admin [demoTools])"
    by (simp add: getRoleFromEnv_worldOf envVars_mcpAuth getenv_simps roles_get_mcpAuth)
  have given: "isToolAllowed ''create_user'' (Some ''admin'') (worldOf mcpAuth ?admin [demoTools]) =
      (Inr True, worldOf mcpAuth ?admin [demoTools])"
    by (simp add: isToolAllowed_current[OF cur] worldOf_simps roles_get_mcpAuth
        roleConfig_get_def adminRole_def)
  have "isToolAllowed ''create_user'' None (worldOf mcpAuth ?admin [demoTools]) =
     (Inr True, worldOf mcpAuth ?admin [demoTools])"
    using inst[where toolName = "''create_user''" and envA = ?admin] res given
    by (simp add: andThen_def)
  moreover
  have givenF: "filterTools 0 (Some ''admin'') (worldOf mcpAuth ?admin [demoTools]) =
      (Inr 0, worldOf mcpAuth ?admin [demoTools])"
    using filterTools_worldOf[OF cur, of "''admin''" 0 ?admin]
    by (simp add: roles_get_mcpAuth roleConfig_get_def adminRole_def)
  have "filterTools 0 None (worldOf mcpAuth ?admin [demoTools]) =
     (Inr 0, worldOf mcpAuth ?admin [demoTools])"
    using inst[where tools = 0 and envA = ?admin] res givenF
    by (simp add: andThen_def)
  moreover
  have "fst (getRoleFromEnv (worldOf mcpAuth (setenv noEnv ''AGENT_ROLE'' ''editor'')
          [demoTools])) = Inr (Str ''editor'')"
    by (simp add: getRoleFromEnv_worldOf envVars_mcpAuth getenv_simps roles_get_mcpAuth)
  then have "fst (getRoleFromEnv (worldOf mcpAuth
          (setenv (setenv noEnv ''AGENT_ROLE'' ''editor'') ''HOME'' ''/root'') [demoTools])) =
     Inr (Str ''editor'')"
    using inst[where envA = "setenv (setenv noEnv ''AGENT_ROLE'' ''editor'') ''HOME'' ''/root''"
        and envB = "setenv noEnv ''AGENT_ROLE'' ''editor''"]
    by (simp add: envVars_mcpAuth getenv_simps)
  ultimately show ?thesis by simp
qed

text \<open>
  The claim as first stated fails for the empty role key, given explicitly: the same
  call is refused in the empty environment and granted when the role variable is
  \<open>admin\<close>.
\<close>

theorem isToolAllowed_environment_counterexample:
  "fst (isToolAllowed ''create_user'' (Some '''') (worldOf mcpAuth noEnv noObjects)) =
     Inr False \<and>
   fst (isToolAllowed ''create_user'' (Some '''')
          (worldOf mcpAuth (setenv noEnv ''AGENT_ROLE'' ''admin'') noObjects)) = Inr True"
proof -
  have a: "currentRole (Some '''') (worldOf mcpAuth noEnv noObjects) =
      (Inr (Str ''viewer''), worldOf mcpAuth noEnv noObjects)"
    by (simp add: currentRole_empty getRoleFromEnv_worldOf envVars_mcpAuth getenv_simps
        defaultRole_mcpAuth)
  have b: "currentRole (Some '''')
        (worldOf mcpAuth (setenv noEnv ''AGENT_ROLE'' ''admin'') noObjects) =
      (Inr (Str ''admin''), worldOf mcpAuth (setenv noEnv ''AGENT_ROLE'' ''admin'') noObjects)"
    by (simp add: currentRole_empty getRoleFromEnv_worldOf envVars_mcpAuth getenv_simps
        roles_get_mcpAuth)
  show ?thesis
    by (simp add: isToolAllowed_current[OF a] isToolAllowed_current[OF b] worldOf_simps
        roles_get_mcpAuth roleConfig_get_def adminRole_def viewerRole_def)
qed

subsection \<open>The agent summary with an unregistered default role\<close>

text \<open>
  Claim C1 says that no method ever throws, and that \<open>getAgentInfo\<close> returns a
  summary even when neither the resolved role nor the default role is registered.
  On the instance built with the default role \<open>ghost\<close> and an empty environment,
  the resolved role is \<open>ghost\<close>, no role is registered under that key, nothing is
  inherited under it either, and \<open>getAgentInfo\<close> throws a TypeError (reading \<open>name\<close>
  of \<open>undefined\<close>).
\<close>

theorem getAgentInfo_unregistered_default_throws:
  "getRoleFromEnv (worldOf ghostDefault noEnv noObjects) =
     (Inr (Str ''ghost''), worldOf ghostDefault noEnv noObjects) \<and>
   ''ghost'' \<notin> fst ` set (role_entries (roles ghostDefault)) \<and>
   registered (roles ghostDefault) ''ghost'' = None \<and>
   roles_get (roles ghostDefault) ''ghost'' = Undefined \<and>
   defaultRole ghostDefault = ''ghost'' \<and>
   fst (getAgentInfo (worldOf ghostDefault noEnv noObjects)) = Inl TypeError"
proof -
  let ?w = "worldOf ghostDefault noEnv noObjects"
  have r: "getRoleFromEnv ?w = (Inr (Str ''ghost''), ?w)"
    by (simp add: getRoleFromEnv_worldOf ghostDefault_fields getenv_simps)
  have u: "''ghost'' \<notin> fst ` set (role_entries (roles ghostDefault))"
    by (simp add: ghostDefault_fields roles_mcpAuth DEFAULT_ROLES_def)
  have g: "roles_get (roles ghostDefault) ''ghost'' = Undefined"
    by (simp add: ghostDefault_fields roles_get_mcpAuth inherited_get_def
        objectPrototypeMethods_def)
  have "fst (getAgentInfo ?w) = Inl TypeError"
    using r g
    by (simp add: getAgentInfo_def andThen_def Let_def worldOf_simps ghostDefault_fields
        getAllowedTools_def getBlockedTools_def)
  then show ?thesis
    using r u g by (simp add: ghostDefault_fields registered_mcpAuth)
qed


end
